theory Spec2Isabelle
  imports Complex_Main
begin

section \<open>Circle CCTP transfer tool: the encoders of \<^verbatim>\<open>cross-chain-transfer.js\<close>\<close>

text \<open>
  JavaScript strings are modelled as \<open>string\<close>, a list of code units below 256. A thrown \<^verbatim>\<open>Error\<close> is a value of
  \<open>error\<close>, and a function that can throw returns \<open>error + 'a\<close> with \<open>Inl\<close> for the throw.
\<close>

datatype error =
    UnsupportedBlockchain string
      \<comment> \<open>\<^verbatim>\<open>new Error(`Unsupported blockchain: ${blockchain}`)\<close>\<close>
  | TransactionTimeout string
      \<comment> \<open>\<^verbatim>\<open>new Error(`Timeout waiting for ${step} transaction completion`)\<close>\<close>
  | AttestationTimeout nat
      \<comment> \<open>\<^verbatim>\<open>new Error(`Timeout waiting for attestation after ${maxAttempts} attempts`)\<close>\<close>
  | CreateFailed string
      \<comment> \<open>\<^verbatim>\<open>new Error("Failed to create ... transaction")\<close>, with the step's name\<close>
  | TypeError
      \<comment> \<open>reading a property of \<^verbatim>\<open>undefined\<close>\<close>
  | Thrown string
      \<comment> \<open>an exception raised by the custody client or by \<^verbatim>\<open>fetch\<close>\<close>

subsection \<open>\<^verbatim>\<open>getCCTPDomainId\<close> and \<^verbatim>\<open>getMessageTransmitterAddress\<close>\<close>

definition getCCTPDomainId :: "string \<Rightarrow> error + nat" where
  "getCCTPDomainId blockchain =
     (if blockchain = ''ETH'' then Inr 0
      else if blockchain = ''MATIC'' then Inr 7
      else if blockchain = ''AVAX'' then Inr 1
      else if blockchain = ''ETH-SEPOLIA'' then Inr 0
      else if blockchain = ''MATIC-AMOY'' then Inr 7
      else Inl (UnsupportedBlockchain blockchain))"

definition getMessageTransmitterAddress :: "string \<Rightarrow> error + string" where
  "getMessageTransmitterAddress blockchain =
     (if blockchain = ''ETH'' then Inr ''0x0a992d191deec32afe36203ad87d7d289a738f81''
      else if blockchain = ''MATIC'' then Inr ''0xF3be9355363857F3e001be68856A2f96b4C39Ba9''
      else if blockchain = ''AVAX'' then Inr ''0x8186359aF5F57FbB40c6b14A588d2A59C0C29880''
      else if blockchain = ''ETH-SEPOLIA'' then Inr ''0x7865fAfC2db2093669d92c0F33AeEF291086BEFD''
      else if blockchain = ''MATIC-AMOY'' then Inr ''0x7865fAfC2db2093669d92c0F33AeEF291086BEFD''
      else Inl (UnsupportedBlockchain blockchain))"

subsection \<open>\<^verbatim>\<open>addressToBytes32\<close>\<close>

text \<open>
  \<^verbatim>\<open>address.replace(/^0x/, '')\<close> removes one leading, lower-case \<^verbatim>\<open>0x\<close>;
  \<^verbatim>\<open>padStart(64, '0')\<close> prepends zeros up to length 64 and leaves a longer string as it is.
\<close>

definition replace_0x :: "string \<Rightarrow> string" where
  "replace_0x s = (if take 2 s = ''0x'' then drop 2 s else s)"

definition padStart :: "nat \<Rightarrow> char \<Rightarrow> string \<Rightarrow> string" where
  "padStart n c s = replicate (n - length s) c @ s"

text \<open>The body has no \<^verbatim>\<open>throw\<close>: on a string the call always returns.\<close>

definition addressToBytes32 :: "string \<Rightarrow> error + string" where
  "addressToBytes32 address = Inr (''0x'' @ padStart 64 (CHR ''0'') (replace_0x address))"

text \<open>Vocabulary of the properties: hex digits, and a 20-byte address in hex.\<close>

definition isHexDigit :: "char \<Rightarrow> bool" where
  "isHexDigit c = (c \<in> set ''0123456789abcdefABCDEF'')"

definition isHexAddress :: "string \<Rightarrow> bool" where
  "isHexAddress s = (length (replace_0x s) = 40 \<and> list_all isHexDigit (replace_0x s))"


section \<open>The pollers\<close>

subsection \<open>\<^verbatim>\<open>waitForTransactionCompletion\<close>\<close>

text \<open>
  \<^verbatim>\<open>client.getTransaction\<close> either throws or returns a response whose
  \<^verbatim>\<open>data?.transaction\<close> may be missing. The poller reads the fields \<^verbatim>\<open>state\<close> and
  \<^verbatim>\<open>txHash\<close> only; \<open>None\<close> is \<^verbatim>\<open>undefined\<close>.
\<close>

datatype transaction = Transaction (tx_state: string) (txHash: "string option")

datatype tx_reply = GetThrows string | GetReturns "transaction option"

text \<open>
  The loop of the source with the attempt budget as a parameter. Every iteration issues
  exactly one status query and then increments \<^verbatim>\<open>attempts\<close>, on the normal path and in the
  \<^verbatim>\<open>catch\<close> alike, so the query issued when \<^verbatim>\<open>attempts = i\<close> is query number \<open>i\<close> of this call
  (from 0): \<open>replies i\<close> is its reply. The result is paired with the number of status
  queries that were issued. The 30 second sleep is not modelled.
\<close>

function waitForTransactionCompletion_loop ::
  "nat \<Rightarrow> (nat \<Rightarrow> tx_reply) \<Rightarrow> string \<Rightarrow> nat \<Rightarrow> nat \<times> (error + string option)" where
  "waitForTransactionCompletion_loop maxAttempts replies step attempts =
     (if attempts < maxAttempts then
        (case replies attempts of
           GetThrows msg \<Rightarrow>
             waitForTransactionCompletion_loop maxAttempts replies step (attempts + 1)
         | GetReturns None \<Rightarrow>
             waitForTransactionCompletion_loop maxAttempts replies step (attempts + 1)
         | GetReturns (Some tx) \<Rightarrow>
             if tx_state tx = ''CONFIRMED'' then (attempts + 1, Inr (txHash tx))
             else waitForTransactionCompletion_loop maxAttempts replies step (attempts + 1))
      else (attempts, Inl (TransactionTimeout step)))"
  by pat_completeness auto
termination
  by (relation "measure (\<lambda>(maxAttempts, replies, step, attempts). maxAttempts - attempts)") auto

declare waitForTransactionCompletion_loop.simps [simp del]

definition waitForTransactionCompletion ::
  "(nat \<Rightarrow> tx_reply) \<Rightarrow> string \<Rightarrow> nat \<times> (error + string option)" where
  "waitForTransactionCompletion replies step =
     waitForTransactionCompletion_loop 40 replies step 0"

text \<open>Vocabulary: a reply in which the poller observes the state \<^verbatim>\<open>CONFIRMED\<close>.\<close>

definition confirmed :: "tx_reply \<Rightarrow> bool" where
  "confirmed r =
     (case r of GetReturns (Some tx) \<Rightarrow> tx_state tx = ''CONFIRMED'' | _ \<Rightarrow> False)"

definition hashOf :: "tx_reply \<Rightarrow> string option" where
  "hashOf r = (case r of GetReturns (Some tx) \<Rightarrow> txHash tx | _ \<Rightarrow> None)"

subsection \<open>\<^verbatim>\<open>waitForAttestation\<close>\<close>

text \<open>
  One element of \<^verbatim>\<open>data.messages\<close>, with the two fields the poller reads; the object the
  poller returns; and what \<^verbatim>\<open>fetch\<close> and \<^verbatim>\<open>response.json()\<close> can do.
  \<open>JsonData None\<close> is a body without a (truthy) \<^verbatim>\<open>messages\<close> field.
\<close>

datatype cctp_message = CctpMessage (msg_message: "string option") (msg_attestation: "string option")

record attestation_pair =
  message :: "string option"
  attestation :: string

datatype json_body = JsonThrows string | JsonData "cctp_message list option"

datatype fetch_reply = FetchThrows string | Response nat string json_body
  \<comment> \<open>\<^verbatim>\<open>response.status\<close>, \<^verbatim>\<open>response.statusText\<close> and the outcome of \<^verbatim>\<open>response.json()\<close>\<close>

definition response_ok :: "nat \<Rightarrow> bool" where
  "response_ok status = (200 \<le> status \<and> status \<le> 299)"

function waitForAttestation_loop ::
  "nat \<Rightarrow> (nat \<Rightarrow> fetch_reply) \<Rightarrow> nat \<Rightarrow> nat \<times> (error + attestation_pair)" where
  "waitForAttestation_loop maxAttempts replies attempts =
     (if attempts < maxAttempts then
        (case replies attempts of
           FetchThrows msg \<Rightarrow> waitForAttestation_loop maxAttempts replies (attempts + 1)
         | Response status statusText body \<Rightarrow>
             if \<not> response_ok status then
               (if status = 404 then waitForAttestation_loop maxAttempts replies (attempts + 1)
                else \<comment> \<open>\<^verbatim>\<open>throw new Error(`HTTP ...`)\<close>, caught by the loop's own \<^verbatim>\<open>catch\<close>\<close>
                  waitForAttestation_loop maxAttempts replies (attempts + 1))
             else
               (case body of
                  JsonThrows msg \<Rightarrow> waitForAttestation_loop maxAttempts replies (attempts + 1)
                | JsonData None \<Rightarrow> waitForAttestation_loop maxAttempts replies (attempts + 1)
                | JsonData (Some []) \<Rightarrow>
                    waitForAttestation_loop maxAttempts replies (attempts + 1)
                | JsonData (Some (m # rest)) \<Rightarrow>
                    (case msg_attestation m of
                       None \<Rightarrow> waitForAttestation_loop maxAttempts replies (attempts + 1)
                     | Some a \<Rightarrow>
                         if a \<noteq> [] then
                           (attempts + 1, Inr \<lparr>message = msg_message m, attestation = a\<rparr>)
                         else waitForAttestation_loop maxAttempts replies (attempts + 1))))
      else (attempts, Inl (AttestationTimeout maxAttempts)))"
  by pat_completeness auto
termination
  by (relation "measure (\<lambda>(maxAttempts, replies, attempts). maxAttempts - attempts)") auto

declare waitForAttestation_loop.simps [simp del]

text \<open>Decimal digits of a natural number, and a template literal's rendering of a hash.\<close>

fun showNat :: "nat \<Rightarrow> string" where
  "showNat n = (if n < 10 then [''0123456789'' ! n]
                else showNat (n div 10) @ [''0123456789'' ! (n mod 10)])"

declare showNat.simps [simp del]

definition templateString :: "string option \<Rightarrow> string" where
  "templateString v = (case v of None \<Rightarrow> ''undefined'' | Some s \<Rightarrow> s)"

definition apiHost :: string where
  "apiHost = ''https://iris-api-sandbox.circle.com''"

definition attestationUrl :: "nat \<Rightarrow> string option \<Rightarrow> string" where
  "attestationUrl sourceDomainId burnTxHash =
     apiHost @ ''/v1/messages/'' @ showNat sourceDomainId @ ''/'' @ templateString burnTxHash"

text \<open>
  \<open>fetch i url\<close> is the reply to query number \<open>i\<close> of this call. The domain lookup stands
  before the loop and outside its \<^verbatim>\<open>try\<close>: an unsupported chain throws without polling.
\<close>

definition waitForAttestation ::
  "(nat \<Rightarrow> string \<Rightarrow> fetch_reply) \<Rightarrow> string option \<Rightarrow> string \<Rightarrow> nat \<times> (error + attestation_pair)" where
  "waitForAttestation fetch burnTxHash sourceBlockchain =
     (case getCCTPDomainId sourceBlockchain of
        Inl e \<Rightarrow> (0, Inl e)
      | Inr sourceDomainId \<Rightarrow>
          waitForAttestation_loop 40
            (\<lambda>i. fetch i (attestationUrl sourceDomainId burnTxHash)) 0)"

text \<open>
  Vocabulary: a reply that carries an attestation, that is a success status whose body
  parses, has a non-empty \<^verbatim>\<open>messages\<close> array and a non-empty \<^verbatim>\<open>messages[0].attestation\<close>;
  and the pair the poller builds from it.
\<close>

definition attested :: "fetch_reply \<Rightarrow> bool" where
  "attested r =
     (case r of
        Response status statusText (JsonData (Some (m # rest))) \<Rightarrow>
          response_ok status \<and> (case msg_attestation m of None \<Rightarrow> False | Some a \<Rightarrow> a \<noteq> [])
      | _ \<Rightarrow> False)"

definition pairOf :: "fetch_reply \<Rightarrow> attestation_pair" where
  "pairOf r =
     (case r of
        Response status statusText (JsonData (Some (m # rest))) \<Rightarrow>
          \<lparr>message = msg_message m,
           attestation = (case msg_attestation m of None \<Rightarrow> [] | Some a \<Rightarrow> a)\<rparr>
      | _ \<Rightarrow> \<lparr>message = None, attestation = []\<rparr>)"


section \<open>The transfer saga\<close>

subsection \<open>Data\<close>

text \<open>
  The table of supported networks, looked up by its own five keys. In JavaScript the
  lookup \<^verbatim>\<open>SUPPORTED_NETWORKS[name]\<close> is also truthy for a property name that every object
  inherits (\<^verbatim>\<open>constructor\<close>, \<^verbatim>\<open>toString\<close>, ...); wallets on a chain with such a name are not
  represented here, and no property below is stated for them.
\<close>

record network =
  net_name :: string
  net_code :: string
  usdcContract :: string

definition SUPPORTED_NETWORKS :: "string \<Rightarrow> network option" where
  "SUPPORTED_NETWORKS = map_of
     [(''ETH'', \<lparr>net_name = ''Ethereum Mainnet'', net_code = ''ETH'',
         usdcContract = ''0xA0b86a33E6441d7c4c5e2F4e7A1b7C4e5d6f7e8f''\<rparr>),
      (''MATIC'', \<lparr>net_name = ''Polygon Mainnet'', net_code = ''MATIC'',
         usdcContract = ''0x2791Bca1f2de4661ED88A30C99A7a9449Aa84174''\<rparr>),
      (''AVAX'', \<lparr>net_name = ''Avalanche C-Chain'', net_code = ''AVAX'',
         usdcContract = ''0xB97EF9Ef8734C71904D8002F8b6Bc66Dd9c48a6E''\<rparr>),
      (''ETH-SEPOLIA'', \<lparr>net_name = ''Ethereum Sepolia (Testnet)'', net_code = ''ETH-SEPOLIA'',
         usdcContract = ''0x1c7D4B196Cb0C7B01d743Fbc6116a902379C7238''\<rparr>),
      (''MATIC-AMOY'', \<lparr>net_name = ''Polygon Amoy (Testnet)'', net_code = ''MATIC-AMOY'',
         usdcContract = ''0x41E94Eb019C0762f9Bfcf9Fb1E58725BfB0e7582''\<rparr>)]"

record wallet =
  wallet_id :: string
  address :: string
  blockchain :: string
  wallet_state :: string
  walletSetId :: string
  walletSetName :: string

record walletSet =
  set_id :: string
  set_name :: string

datatype token = Token (symbol: "string option") (token_name: "string option")

datatype tokenBalance = TokenBalance (token: "token option") (amount: string)

text \<open>
  A JavaScript number: the finite doubles by their exact rational values, the two
  infinities and \<^verbatim>\<open>NaN\<close>. Comparisons are exact on these values; every comparison with
  \<^verbatim>\<open>NaN\<close> is false.
\<close>

datatype jsnum = NaN | NegInfinity | Finite rat | PosInfinity

fun js_less :: "jsnum \<Rightarrow> jsnum \<Rightarrow> bool" where
  "js_less NaN b = False"
| "js_less a NaN = False"
| "js_less a NegInfinity = False"
| "js_less PosInfinity b = False"
| "js_less NegInfinity b = True"
| "js_less (Finite x) (Finite y) = (x < y)"
| "js_less (Finite x) PosInfinity = True"

definition js_greater :: "jsnum \<Rightarrow> jsnum \<Rightarrow> bool" where
  "js_greater a b = js_less b a"

definition js_lesseq :: "jsnum \<Rightarrow> jsnum \<Rightarrow> bool" where
  "js_lesseq a b = (a \<noteq> NaN \<and> b \<noteq> NaN \<and> (js_less a b \<or> a = b))"

definition isNaN :: "jsnum \<Rightarrow> bool" where
  "isNaN a = (a = NaN)"

text \<open>
  A parameter of a contract call. \<open>TimesMillionToString x\<close> is the string
  \<^verbatim>\<open>(x * 1000000).toString()\<close>. The product is a rounded double in general; it is exact
  when \<open>x\<close> is a whole number and the product stays below \<open>2^53\<close>, and such a number prints
  as its decimal digits. \<open>renderParam\<close> gives the string in that case, and for the
  parameters that are strings already.
\<close>

datatype abi_param = Str string | Undefined | TimesMillionToString jsnum

definition renderParam :: "abi_param \<Rightarrow> string option" where
  "renderParam p =
     (case p of
        Str s \<Rightarrow> Some s
      | Undefined \<Rightarrow> None
      | TimesMillionToString (Finite x) \<Rightarrow>
          (if 0 \<le> x \<and> of_int \<lfloor>x\<rfloor> = x \<and> \<lfloor>x\<rfloor> * 1000000 < 2 ^ 53
           then Some (showNat (nat (\<lfloor>x\<rfloor> * 1000000))) else None)
      | TimesMillionToString _ \<Rightarrow> None)"

record fee_config =
  fee_type :: string
  feeLevel :: string

record tx_request =
  walletId :: string
  contractAddress :: string
  abiFunctionSignature :: string
  abiParameters :: "abi_param list"
  fee :: fee_config

datatype create_reply = CreateThrows string | CreateReturns "string option"
  \<comment> \<open>\<^verbatim>\<open>response.data?.id\<close>\<close>

datatype balance_reply = BalanceThrows string | BalanceReturns "tokenBalance list option"
  \<comment> \<open>\<^verbatim>\<open>response.data?.tokenBalances\<close>\<close>

datatype sets_reply = SetsThrows string | SetsReturns "walletSet list option"

datatype wallets_reply = WalletsThrows string | WalletsReturns "wallet list option"

subsection \<open>The environment\<close>

text \<open>
  Everything outside the program: the two parsers of the runtime, the custody client and
  \<^verbatim>\<open>fetch\<close>. A status query (\<^verbatim>\<open>getTransaction\<close>, \<^verbatim>\<open>fetch\<close>) takes as first argument the
  number of status queries the run has issued before it, so that its reply may change
  with time. \<open>parseInt\<close> yields \<open>None\<close> for \<^verbatim>\<open>NaN\<close>.
\<close>

record env =
  parseInt :: "string \<Rightarrow> int option"
  parseFloat :: "string \<Rightarrow> jsnum"
  listWalletSets :: sets_reply
  listWallets :: "string \<Rightarrow> wallets_reply"
  getWalletTokenBalance :: "string \<Rightarrow> balance_reply"
  createContractExecutionTransaction :: "tx_request \<Rightarrow> create_reply"
  getTransaction :: "nat \<Rightarrow> string \<Rightarrow> tx_reply"
  fetch :: "nat \<Rightarrow> string \<Rightarrow> fetch_reply"

text \<open>What a run did, in order.\<close>

datatype event =
    Created tx_request
      \<comment> \<open>a call of \<^verbatim>\<open>client.createContractExecutionTransaction\<close>\<close>
  | PolledTx string string "error + string option"
      \<comment> \<open>\<^verbatim>\<open>waitForTransactionCompletion(txId, step)\<close> and how it ended\<close>
  | PolledAttestation "string option" string "error + attestation_pair"
      \<comment> \<open>\<^verbatim>\<open>waitForAttestation(burnTxHash, sourceBlockchain)\<close> and how it ended\<close>

record io_state =
  clock :: nat
  trace :: "event list"

definition init :: io_state where
  "init = \<lparr>clock = 0, trace = []\<rparr>"

type_synonym 'a io = "io_state \<Rightarrow> (error + 'a) \<times> io_state"

definition return_io :: "'a \<Rightarrow> 'a io" where
  "return_io x s = (Inr x, s)"

definition lift_io :: "error + 'a \<Rightarrow> 'a io" where
  "lift_io r s = (r, s)"

definition bind_io :: "'a io \<Rightarrow> ('a \<Rightarrow> 'b io) \<Rightarrow> 'b io" where
  "bind_io m f s = (case m s of (Inl e, s') \<Rightarrow> (Inl e, s') | (Inr x, s') \<Rightarrow> f x s')"

subsection \<open>Helpers of the source\<close>

text \<open>
  \<^verbatim>\<open>String.prototype.trim\<close> and \<^verbatim>\<open>toLowerCase\<close> on code units below 256: the letters
  A to Z, and the Latin-1 capitals from 192 to 222 without the multiplication sign 215.
  \<^verbatim>\<open>askQuestion\<close> resolves to the trimmed line.
\<close>

definition isWhiteSpace :: "char \<Rightarrow> bool" where
  "isWhiteSpace c = (of_char c \<in> {9, 10, 11, 12, 13, 32, 160 :: nat})"

definition trim :: "string \<Rightarrow> string" where
  "trim s = rev (dropWhile isWhiteSpace (rev (dropWhile isWhiteSpace s)))"

definition toLowerCase :: "string \<Rightarrow> string" where
  "toLowerCase s =
     map (\<lambda>c. case map_of (zip ''ABCDEFGHIJKLMNOPQRSTUVWXYZ'' ''abcdefghijklmnopqrstuvwxyz'') c of
                Some l \<Rightarrow> l
              | None \<Rightarrow>
                  if 192 \<le> (of_char c :: nat) \<and> (of_char c :: nat) \<le> 222
                     \<and> (of_char c :: nat) \<noteq> 215
                  then char_of (of_char c + 32 :: nat) else c) s"

definition askQuestion :: "string \<Rightarrow> string" where
  "askQuestion answer = trim answer"

definition includes_str :: "string \<Rightarrow> string \<Rightarrow> bool" where
  "includes_str s sub = list_ex (\<lambda>i. take (length sub) (drop i s) = sub) [0..<Suc (length s)]"

definition getAllWallets :: "env \<Rightarrow> wallet list" where
  "getAllWallets e =
     (case listWalletSets e of
        SetsThrows msg \<Rightarrow> []
      | SetsReturns None \<Rightarrow> []
      | SetsReturns (Some walletSets) \<Rightarrow>
          concat (map (\<lambda>ws.
            case listWallets e (set_id ws) of
              WalletsThrows msg \<Rightarrow> []
            | WalletsReturns None \<Rightarrow> []
            | WalletsReturns (Some wallets) \<Rightarrow>
                map (\<lambda>w. w\<lparr>walletSetName := set_name ws, walletSetId := set_id ws\<rparr>) wallets)
            walletSets))"

definition getWalletBalance :: "env \<Rightarrow> string \<Rightarrow> tokenBalance list" where
  "getWalletBalance e walletId' =
     (case getWalletTokenBalance e walletId' of
        BalanceThrows msg \<Rightarrow> []
      | BalanceReturns None \<Rightarrow> []
      | BalanceReturns (Some tokenBalances) \<Rightarrow> tokenBalances)"

definition findUSDCBalance :: "env \<Rightarrow> tokenBalance list \<Rightarrow> jsnum" where
  "findUSDCBalance e tokenBalances =
     (case find (\<lambda>balance.
              case token balance of
                None \<Rightarrow> False
              | Some t \<Rightarrow>
                  symbol t = Some ''USDC'' \<or>
                  (case token_name t of None \<Rightarrow> False | Some n \<Rightarrow> includes_str n ''USD Coin''))
            tokenBalances of
        Some usdcBalance \<Rightarrow> parseFloat e (amount usdcBalance)
      | None \<Rightarrow> Finite 0)"

text \<open>
  \<^verbatim>\<open>parseInt(choice) - 1\<close>, and the test
  \<^verbatim>\<open>index < 0 || index >= wallets.length\<close>, which is false for \<^verbatim>\<open>NaN\<close>.
\<close>

definition choiceIndex :: "env \<Rightarrow> string \<Rightarrow> int option" where
  "choiceIndex e choice = map_option (\<lambda>n. n - 1) (parseInt e choice)"

definition outOfRange :: "int option \<Rightarrow> nat \<Rightarrow> bool" where
  "outOfRange index len = (case index of None \<Rightarrow> False | Some i \<Rightarrow> i < 0 \<or> i \<ge> int len)"

subsection \<open>Steps shared by the two sagas\<close>

text \<open>
  \<^verbatim>\<open>SUPPORTED_NETWORKS[blockchain]\<close> followed by a property read: a \<^verbatim>\<open>TypeError\<close> for
  a chain that is not in the table.
\<close>

definition networkOf :: "string \<Rightarrow> network io" where
  "networkOf chain =
     lift_io (case SUPPORTED_NETWORKS chain of None \<Rightarrow> Inl TypeError | Some n \<Rightarrow> Inr n)"

text \<open>
  \<^verbatim>\<open>const r = await client.createContractExecutionTransaction(req); const tx = r.data?.id;\<close>
  \<^verbatim>\<open>if (!tx) throw new Error("Failed to create ... transaction")\<close>.
\<close>

definition createResult :: "env \<Rightarrow> tx_request \<Rightarrow> string \<Rightarrow> error + string" where
  "createResult e req what =
     (case createContractExecutionTransaction e req of
        CreateThrows msg \<Rightarrow> Inl (Thrown msg)
      | CreateReturns None \<Rightarrow> Inl (CreateFailed what)
      | CreateReturns (Some txId) \<Rightarrow>
          if txId = [] then Inl (CreateFailed what) else Inr txId)"

definition createTx :: "env \<Rightarrow> tx_request \<Rightarrow> string \<Rightarrow> string io" where
  "createTx e req what s =
     (createResult e req what, s\<lparr>trace := trace s @ [Created req]\<rparr>)"

text \<open>
  A call of a poller at time \<open>t\<close>: its query number \<open>i\<close> is the run's status query
  number \<open>t + i\<close>. The call advances the clock by the number of queries it issued.
\<close>

definition txPoll :: "env \<Rightarrow> nat \<Rightarrow> string \<Rightarrow> string \<Rightarrow> nat \<times> (error + string option)" where
  "txPoll e t txId step =
     waitForTransactionCompletion (\<lambda>i. getTransaction e (t + i) txId) step"

definition awaitTx :: "env \<Rightarrow> string \<Rightarrow> string \<Rightarrow> (string option) io" where
  "awaitTx e txId step s =
     (snd (txPoll e (clock s) txId step),
      s\<lparr>clock := clock s + fst (txPoll e (clock s) txId step),
        trace := trace s @ [PolledTx txId step (snd (txPoll e (clock s) txId step))]\<rparr>)"

definition attestationPoll ::
  "env \<Rightarrow> nat \<Rightarrow> string option \<Rightarrow> string \<Rightarrow> nat \<times> (error + attestation_pair)" where
  "attestationPoll e t burnTxHash sourceBlockchain =
     waitForAttestation (\<lambda>i. fetch e (t + i)) burnTxHash sourceBlockchain"

definition awaitAttestation :: "env \<Rightarrow> string option \<Rightarrow> string \<Rightarrow> attestation_pair io" where
  "awaitAttestation e burnTxHash sourceBlockchain s =
     (snd (attestationPoll e (clock s) burnTxHash sourceBlockchain),
      s\<lparr>clock := clock s + fst (attestationPoll e (clock s) burnTxHash sourceBlockchain),
        trace := trace s @
          [PolledAttestation burnTxHash sourceBlockchain
             (snd (attestationPoll e (clock s) burnTxHash sourceBlockchain))]\<rparr>)"

text \<open>A string that may be \<^verbatim>\<open>undefined\<close>, as a parameter.\<close>

definition optParam :: "string option \<Rightarrow> abi_param" where
  "optParam v = (case v of None \<Rightarrow> Undefined | Some x \<Rightarrow> Str x)"

definition TokenMessenger :: string where
  "TokenMessenger = ''0x9f3B8679c73C2Fef8b59B4f3444d4e156fb70AA5''"


subsection \<open>\<^verbatim>\<open>performCrossChainTransfer\<close>\<close>

text \<open>How a run ended: the message of an early \<^verbatim>\<open>return\<close>, or the \<^verbatim>\<open>catch\<close> that took the error.\<close>

datatype outcome =
    Aborted string
  | ErrorDuring error
      \<comment> \<open>the outer \<^verbatim>\<open>catch\<close> of \<^verbatim>\<open>performCrossChainTransfer\<close>\<close>
  | TransferFailed error
      \<comment> \<open>the \<^verbatim>\<open>catch\<close> around the four steps\<close>
  | TransferCompleted "string option" "string option"
      \<comment> \<open>burn and mint transaction hashes\<close>
  | Unhandled error
      \<comment> \<open>\<^verbatim>\<open>recoverFromBurn\<close> rejects: the error reaches \<^verbatim>\<open>main().catch\<close>\<close>
  | RecoveryFailed error
  | RecoveryCompleted "string option"

text \<open>The lines typed at the prompts of a transfer.\<close>

record transfer_answers =
  ans_source :: string
  ans_destination :: string
  ans_amount :: string
  ans_confirmation :: string

record transferIntent =
  intent_source :: wallet
  intent_destination :: wallet
  intent_amount :: jsnum

text \<open>
  The part of \<^verbatim>\<open>performCrossChainTransfer\<close> before the inner \<^verbatim>\<open>try\<close>: wallet lookup,
  menus, balance and amount checks, confirmation. It submits nothing. A menu answer
  that parses to \<^verbatim>\<open>NaN\<close> passes the range test, selects \<^verbatim>\<open>undefined\<close> and fails at the
  next property read, inside the outer \<^verbatim>\<open>try\<close>.
\<close>

definition selectTransfer :: "env \<Rightarrow> transfer_answers \<Rightarrow> outcome + transferIntent" where
  "selectTransfer e ans =
     (let allWallets = getAllWallets e in
      if length allWallets = 0 then Inl (Aborted ''No wallets found. Please create some wallets first.'')
      else
      let supportedWallets =
            filter (\<lambda>w. SUPPORTED_NETWORKS (blockchain w) \<noteq> None \<and> wallet_state w = ''LIVE'')
              allWallets in
      if length supportedWallets < 2
      then Inl (Aborted ''You need at least 2 wallets on supported networks for cross-chain transfers.'')
      else
      let sourceChoice = askQuestion (ans_source ans);
          sourceIndex = choiceIndex e sourceChoice in
      if outOfRange sourceIndex (length supportedWallets)
      then Inl (Aborted ''Invalid source wallet selection.'')
      else
      case sourceIndex of
        None \<Rightarrow> Inl (ErrorDuring TypeError)
      | Some i \<Rightarrow>
      let sourceWallet = supportedWallets ! nat i;
          sourceBalances = getWalletBalance e (wallet_id sourceWallet);
          sourceUSDCBalance = findUSDCBalance e sourceBalances in
      if js_lesseq sourceUSDCBalance (Finite 0)
      then Inl (Aborted ''Source wallet has no USDC balance. Please add USDC to this wallet first.'')
      else
      let destinationWallets =
            filter (\<lambda>w. blockchain w \<noteq> blockchain sourceWallet) supportedWallets in
      if length destinationWallets = 0
      then Inl (Aborted ''No wallets found on different networks for cross-chain transfer.'')
      else
      let destChoice = askQuestion (ans_destination ans);
          destIndex = choiceIndex e destChoice in
      if outOfRange destIndex (length destinationWallets)
      then Inl (Aborted ''Invalid destination wallet selection.'')
      else
      case destIndex of
        None \<Rightarrow> Inl (ErrorDuring TypeError)
      | Some j \<Rightarrow>
      let destinationWallet = destinationWallets ! nat j;
          amountInput = askQuestion (ans_amount ans);
          transferAmount = parseFloat e amountInput in
      if isNaN transferAmount \<or> js_lesseq transferAmount (Finite 0)
      then Inl (Aborted ''Invalid amount. Please enter a positive number.'')
      else if js_greater transferAmount sourceUSDCBalance
      then Inl (Aborted ''Insufficient balance.'')
      else
      let confirmation = askQuestion (ans_confirmation ans) in
      if toLowerCase confirmation \<noteq> ''yes'' \<and> toLowerCase confirmation \<noteq> ''y''
      then Inl (Aborted ''Transfer cancelled.'')
      else Inr \<lparr>intent_source = sourceWallet, intent_destination = destinationWallet,
                intent_amount = transferAmount\<rparr>)"

text \<open>
  The body of the inner \<^verbatim>\<open>try\<close>: approve, burn, attest, mint. The test
  \<^verbatim>\<open>if (!attestation)\<close> after \<^verbatim>\<open>waitForAttestation\<close> never fires, since the poller
  returns an object or throws. The log line before the mint reads
  \<^verbatim>\<open>SUPPORTED_NETWORKS[destinationWallet.blockchain].name\<close>.
\<close>

definition transferSteps ::
  "env \<Rightarrow> wallet \<Rightarrow> wallet \<Rightarrow> jsnum \<Rightarrow> (string option \<times> string option) io" where
  "transferSteps e sourceWallet destinationWallet transferAmount =
     bind_io (networkOf (blockchain sourceWallet)) (\<lambda>sourceNetwork.
     bind_io (createTx e
        \<lparr>walletId = wallet_id sourceWallet,
         contractAddress = usdcContract sourceNetwork,
         abiFunctionSignature = ''approve(address,uint256)'',
         abiParameters = [Str TokenMessenger, TimesMillionToString transferAmount],
         fee = \<lparr>fee_type = ''level'', feeLevel = ''MEDIUM''\<rparr>\<rparr> ''approval'') (\<lambda>approvalTx.
     bind_io (awaitTx e approvalTx ''Approval'') (\<lambda>approvalTxHash.
     bind_io (lift_io (getCCTPDomainId (blockchain destinationWallet))) (\<lambda>destinationDomain.
     bind_io (lift_io (addressToBytes32 (address destinationWallet))) (\<lambda>encodedDestinationAddress.
     bind_io (createTx e
        \<lparr>walletId = wallet_id sourceWallet,
         contractAddress = TokenMessenger,
         abiFunctionSignature = ''depositForBurn(uint256,uint32,bytes32,address)'',
         abiParameters =
           [TimesMillionToString transferAmount,
            Str (showNat destinationDomain),
            Str encodedDestinationAddress,
            Str (usdcContract sourceNetwork)],
         fee = \<lparr>fee_type = ''level'', feeLevel = ''MEDIUM''\<rparr>\<rparr> ''burn'') (\<lambda>burnTx.
     bind_io (awaitTx e burnTx ''Burn'') (\<lambda>burnTxHash.
     bind_io (awaitAttestation e burnTxHash (blockchain sourceWallet)) (\<lambda>attestation'.
     bind_io (networkOf (blockchain destinationWallet)) (\<lambda>destinationNetwork.
     bind_io (lift_io (getMessageTransmitterAddress (blockchain destinationWallet))) (\<lambda>transmitter.
     bind_io (createTx e
        \<lparr>walletId = wallet_id destinationWallet,
         contractAddress = transmitter,
         abiFunctionSignature = ''receiveMessage(bytes,bytes)'',
         abiParameters =
           [optParam (message attestation'), Str (attestation attestation')],
         fee = \<lparr>fee_type = ''level'', feeLevel = ''MEDIUM''\<rparr>\<rparr> ''mint'') (\<lambda>mintTx.
     bind_io (awaitTx e mintTx ''Mint'') (\<lambda>mintTxHash.
     return_io (burnTxHash, mintTxHash)))))))))))))"

definition performCrossChainTransfer :: "env \<Rightarrow> transfer_answers \<Rightarrow> outcome \<times> io_state" where
  "performCrossChainTransfer e ans =
     (case selectTransfer e ans of
        Inl out \<Rightarrow> (out, init)
      | Inr intent \<Rightarrow>
          (case transferSteps e (intent_source intent) (intent_destination intent)
                  (intent_amount intent) init of
             (Inl transferError, s) \<Rightarrow> (TransferFailed transferError, s)
           | (Inr (burnTxHash, mintTxHash), s) \<Rightarrow> (TransferCompleted burnTxHash mintTxHash, s)))"

subsection \<open>\<^verbatim>\<open>recoverFromBurn\<close>\<close>

record recovery_answers =
  rec_burnTxHash :: string
  rec_source :: string
  rec_destination :: string

record recoveryIntent =
  rec_hash :: string
  rec_sourceBlockchain :: string
  rec_wallet :: wallet

text \<open>
  The part before the \<^verbatim>\<open>try\<close>. It stands outside any \<^verbatim>\<open>try\<close>: the
  \<^verbatim>\<open>TypeError\<close> of a \<^verbatim>\<open>NaN\<close> menu answer rejects the function's promise.
\<close>

definition selectRecovery :: "env \<Rightarrow> recovery_answers \<Rightarrow> outcome + recoveryIntent" where
  "selectRecovery e ans =
     (let burnTxHash = askQuestion (rec_burnTxHash ans) in
      if trim burnTxHash = [] then Inl (Aborted ''Burn transaction hash is required for recovery'')
      else
      let sourceChoice = askQuestion (rec_source ans);
          sourceBlockchain = (if sourceChoice = ''1'' then ''ETH-SEPOLIA'' else ''MATIC-AMOY'');
          allWallets = getAllWallets e;
          destinationWallets =
            filter (\<lambda>w. blockchain w \<noteq> sourceBlockchain \<and> SUPPORTED_NETWORKS (blockchain w) \<noteq> None)
              allWallets in
      if length destinationWallets = 0 then Inl (Aborted ''No destination wallets found'')
      else
      let destChoice = askQuestion (rec_destination ans);
          destIndex = choiceIndex e destChoice in
      if outOfRange destIndex (length destinationWallets)
      then Inl (Aborted ''Invalid destination wallet selection'')
      else
      case destIndex of
        None \<Rightarrow> Inl (Unhandled TypeError)
      | Some j \<Rightarrow>
          Inr \<lparr>rec_hash = burnTxHash, rec_sourceBlockchain = sourceBlockchain,
               rec_wallet = destinationWallets ! nat j\<rparr>)"

definition recoverSteps :: "env \<Rightarrow> string \<Rightarrow> string \<Rightarrow> wallet \<Rightarrow> (string option) io" where
  "recoverSteps e burnTxHash sourceBlockchain destinationWallet =
     bind_io (awaitAttestation e (Some burnTxHash) sourceBlockchain) (\<lambda>attestation'.
     bind_io (networkOf (blockchain destinationWallet)) (\<lambda>destinationNetwork.
     bind_io (lift_io (getMessageTransmitterAddress (blockchain destinationWallet))) (\<lambda>transmitter.
     bind_io (createTx e
        \<lparr>walletId = wallet_id destinationWallet,
         contractAddress = transmitter,
         abiFunctionSignature = ''receiveMessage(bytes,bytes)'',
         abiParameters =
           [optParam (message attestation'), Str (attestation attestation')],
         fee = \<lparr>fee_type = ''level'', feeLevel = ''MEDIUM''\<rparr>\<rparr> ''mint'') (\<lambda>mintTx.
     bind_io (awaitTx e mintTx ''Mint'') (\<lambda>mintTxHash.
     return_io mintTxHash)))))"

definition recoverFromBurn :: "env \<Rightarrow> recovery_answers \<Rightarrow> outcome \<times> io_state" where
  "recoverFromBurn e ans =
     (case selectRecovery e ans of
        Inl out \<Rightarrow> (out, init)
      | Inr intent \<Rightarrow>
          (case recoverSteps e (rec_hash intent) (rec_sourceBlockchain intent) (rec_wallet intent)
                  init of
             (Inl err, s) \<Rightarrow> (RecoveryFailed err, s)
           | (Inr mintTxHash, s) \<Rightarrow> (RecoveryCompleted mintTxHash, s)))"

text \<open>Vocabulary of the properties.\<close>

definition isMint :: "tx_request \<Rightarrow> bool" where
  "isMint req = (abiFunctionSignature req = ''receiveMessage(bytes,bytes)'')"

definition created :: "event list \<Rightarrow> tx_request list" where
  "created evs = concat (map (\<lambda>ev. case ev of Created req \<Rightarrow> [req] | _ \<Rightarrow> []) evs)"

definition replay :: "'a list \<Rightarrow> 'a \<Rightarrow> nat \<Rightarrow> 'a" where
  "replay xs d i = (if i < length xs then xs ! i else d)"

text \<open>
  The three contract calls of a transfer, for stating what the sagas submit: the approval
  on the source chain's USDC contract, the burn on the TokenMessenger, and the mint on the
  destination chain's MessageTransmitter.
\<close>

definition approveRequest :: "wallet \<Rightarrow> network \<Rightarrow> jsnum \<Rightarrow> tx_request" where
  "approveRequest src net amt =
     \<lparr>walletId = wallet_id src,
      contractAddress = usdcContract net,
      abiFunctionSignature = ''approve(address,uint256)'',
      abiParameters = [Str ''0x9f3B8679c73C2Fef8b59B4f3444d4e156fb70AA5'', TimesMillionToString amt],
      fee = \<lparr>fee_type = ''level'', feeLevel = ''MEDIUM''\<rparr>\<rparr>"

definition burnRequest :: "wallet \<Rightarrow> network \<Rightarrow> jsnum \<Rightarrow> nat \<Rightarrow> string \<Rightarrow> tx_request" where
  "burnRequest src net amt domain encoded =
     \<lparr>walletId = wallet_id src,
      contractAddress = ''0x9f3B8679c73C2Fef8b59B4f3444d4e156fb70AA5'',
      abiFunctionSignature = ''depositForBurn(uint256,uint32,bytes32,address)'',
      abiParameters =
        [TimesMillionToString amt, Str (showNat domain), Str encoded, Str (usdcContract net)],
      fee = \<lparr>fee_type = ''level'', feeLevel = ''MEDIUM''\<rparr>\<rparr>"

definition mintRequest :: "wallet \<Rightarrow> string \<Rightarrow> attestation_pair \<Rightarrow> tx_request" where
  "mintRequest dst transmitter att =
     \<lparr>walletId = wallet_id dst,
      contractAddress = transmitter,
      abiFunctionSignature = ''receiveMessage(bytes,bytes)'',
      abiParameters = [optParam (message att), Str (attestation att)],
      fee = \<lparr>fee_type = ''level'', feeLevel = ''MEDIUM''\<rparr>\<rparr>"

subsection \<open>Concrete environments\<close>

text \<open>
  An attestation service that answers 404 twice, then 500, then an empty \<^verbatim>\<open>messages\<close>
  array, then the attestation; it knows one burn on domain 0.
\<close>

definition demoFetch :: "nat \<Rightarrow> string \<Rightarrow> fetch_reply" where
  "demoFetch t url =
     (if url \<noteq> ''https://iris-api-sandbox.circle.com/v1/messages/0/0xabc''
      then FetchThrows ''unreachable''
      else if t < 2 then Response 404 ''Not Found'' (JsonThrows [])
      else if t = 2 then Response 500 ''Internal Server Error'' (JsonThrows [])
      else if t = 3 then Response 200 ''OK'' (JsonData (Some []))
      else Response 200 ''OK''
             (JsonData (Some [CctpMessage (Some ''0xmessage'') (Some ''0xattestation'')])))"

text \<open>
  A custody account with one live wallet on Ethereum Sepolia and one on Polygon Amoy and
  100 USDC on each; every transaction is confirmed at the first status check and the
  attestation is ready at the first query.
\<close>

definition sepolia :: network where
  "sepolia = \<lparr>net_name = ''Ethereum Sepolia (Testnet)'', net_code = ''ETH-SEPOLIA'',
         usdcContract = ''0x1c7D4B196Cb0C7B01d743Fbc6116a902379C7238''\<rparr>"

definition avalanche :: network where
  "avalanche = \<lparr>net_name = ''Avalanche C-Chain'', net_code = ''AVAX'',
         usdcContract = ''0xB97EF9Ef8734C71904D8002F8b6Bc66Dd9c48a6E''\<rparr>"

definition demoSource :: wallet where
  "demoSource =
     \<lparr>wallet_id = ''w-1'', address = ''0x1111111111111111111111111111111111111111'',
      blockchain = ''ETH-SEPOLIA'', wallet_state = ''LIVE'', walletSetId = ''set-1'',
      walletSetName = ''Main''\<rparr>"

definition demoDestination :: wallet where
  "demoDestination =
     \<lparr>wallet_id = ''w-2'', address = ''0x2222222222222222222222222222222222222222'',
      blockchain = ''MATIC-AMOY'', wallet_state = ''LIVE'', walletSetId = ''set-1'',
      walletSetName = ''Main''\<rparr>"

definition demoAttestation :: attestation_pair where
  "demoAttestation = \<lparr>message = Some ''0xmessage'', attestation = ''0xattestation''\<rparr>"

definition demoEnv :: env where
  "demoEnv =
     \<lparr>parseInt = (\<lambda>s. if s = ''1'' then Some 1 else if s = ''2'' then Some 2 else None),
      parseFloat = (\<lambda>s. if s = ''50'' then Finite 50 else if s = ''100'' then Finite 100 else NaN),
      listWalletSets = SetsReturns (Some [\<lparr>set_id = ''set-1'', set_name = ''Main''\<rparr>]),
      listWallets = (\<lambda>i. WalletsReturns (Some [demoSource, demoDestination])),
      getWalletTokenBalance =
        (\<lambda>i. BalanceReturns (Some [TokenBalance (Some (Token (Some ''USDC'') None)) ''100''])),
      createContractExecutionTransaction =
        (\<lambda>req. CreateReturns (Some (''tx:'' @ abiFunctionSignature req))),
      getTransaction =
        (\<lambda>t i. GetReturns (Some (Transaction ''CONFIRMED'' (Some (''0xhash:'' @ i))))),
      fetch =
        (\<lambda>t url. Response 200 ''OK''
           (JsonData (Some [CctpMessage (Some ''0xmessage'') (Some ''0xattestation'')])))\<rparr>"

definition demoAnswers :: transfer_answers where
  "demoAnswers = \<lparr>ans_source = ''1'', ans_destination = '' 1 '', ans_amount = ''50'',
                   ans_confirmation = ''Yes''\<rparr>"

definition demoRecovery :: recovery_answers where
  "demoRecovery = \<lparr>rec_burnTxHash = ''0xabc'', rec_source = ''1'', rec_destination = ''1''\<rparr>"

text \<open>What the two sagas do in this environment.\<close>

definition demoMint :: tx_request where
  "demoMint =
     \<lparr>walletId = ''w-2'',
      contractAddress = ''0x7865fAfC2db2093669d92c0F33AeEF291086BEFD'',
      abiFunctionSignature = ''receiveMessage(bytes,bytes)'',
      abiParameters = [Str ''0xmessage'', Str ''0xattestation''],
      fee = \<lparr>fee_type = ''level'', feeLevel = ''MEDIUM''\<rparr>\<rparr>"

definition demoTransferTrace :: "event list" where
  "demoTransferTrace =
     [Created
        \<lparr>walletId = ''w-1'',
         contractAddress = ''0x1c7D4B196Cb0C7B01d743Fbc6116a902379C7238'',
         abiFunctionSignature = ''approve(address,uint256)'',
         abiParameters =
           [Str ''0x9f3B8679c73C2Fef8b59B4f3444d4e156fb70AA5'', TimesMillionToString (Finite 50)],
         fee = \<lparr>fee_type = ''level'', feeLevel = ''MEDIUM''\<rparr>\<rparr>,
      PolledTx ''tx:approve(address,uint256)'' ''Approval''
        (Inr (Some ''0xhash:tx:approve(address,uint256)'')),
      Created
        \<lparr>walletId = ''w-1'',
         contractAddress = ''0x9f3B8679c73C2Fef8b59B4f3444d4e156fb70AA5'',
         abiFunctionSignature = ''depositForBurn(uint256,uint32,bytes32,address)'',
         abiParameters =
           [TimesMillionToString (Finite 50), Str ''7'',
            Str ''0x0000000000000000000000002222222222222222222222222222222222222222'',
            Str ''0x1c7D4B196Cb0C7B01d743Fbc6116a902379C7238''],
         fee = \<lparr>fee_type = ''level'', feeLevel = ''MEDIUM''\<rparr>\<rparr>,
      PolledTx ''tx:depositForBurn(uint256,uint32,bytes32,address)'' ''Burn''
        (Inr (Some ''0xhash:tx:depositForBurn(uint256,uint32,bytes32,address)'')),
      PolledAttestation (Some ''0xhash:tx:depositForBurn(uint256,uint32,bytes32,address)'')
        ''ETH-SEPOLIA'' (Inr demoAttestation),
      Created demoMint,
      PolledTx ''tx:receiveMessage(bytes,bytes)'' ''Mint''
        (Inr (Some ''0xhash:tx:receiveMessage(bytes,bytes)''))]"

definition demoRecoveryTrace :: "event list" where
  "demoRecoveryTrace =
     [PolledAttestation (Some ''0xabc'') ''ETH-SEPOLIA'' (Inr demoAttestation),
      Created demoMint,
      PolledTx ''tx:receiveMessage(bytes,bytes)'' ''Mint''
        (Inr (Some ''0xhash:tx:receiveMessage(bytes,bytes)''))]"

text \<open>
  A recovery in the same account that types the burn hash of the transfer above and
  names Ethereum Sepolia, the chain of that burn.
\<close>

definition demoLinkedRecovery :: recovery_answers where
  "demoLinkedRecovery =
     \<lparr>rec_burnTxHash = ''0xhash:tx:depositForBurn(uint256,uint32,bytes32,address)'',
      rec_source = ''1'', rec_destination = ''1''\<rparr>"

text \<open>
  The same account when the custody service reports a USDC balance whose amount is not
  a number; \<^verbatim>\<open>parseFloat\<close> gives \<^verbatim>\<open>NaN\<close> for it.
\<close>

definition nanEnv :: env where
  "nanEnv =
     demoEnv\<lparr>getWalletTokenBalance :=
       (\<lambda>i. BalanceReturns (Some [TokenBalance (Some (Token (Some ''USDC'') None)) ''n/a'']))\<rparr>"

text \<open>
  An account with a live wallet on Avalanche and the Sepolia wallet. The attestation
  service knows the burn under the domain of Avalanche, 1, and answers 404 for every
  other address.
\<close>

definition avaxSource :: wallet where
  "avaxSource =
     \<lparr>wallet_id = ''w-3'', address = ''0x3333333333333333333333333333333333333333'',
      blockchain = ''AVAX'', wallet_state = ''LIVE'', walletSetId = ''set-1'',
      walletSetName = ''Main''\<rparr>"

definition avaxEnv :: env where
  "avaxEnv =
     demoEnv\<lparr>
       listWallets := (\<lambda>i. WalletsReturns (Some [avaxSource, demoSource])),
       fetch := (\<lambda>t url.
         if url = ''https://iris-api-sandbox.circle.com/v1/messages/1/0xhash:tx:depositForBurn(uint256,uint32,bytes32,address)''
         then Response 200 ''OK''
                (JsonData (Some [CctpMessage (Some ''0xmessage'') (Some ''0xattestation'')]))
         else Response 404 ''Not Found'' (JsonThrows []))\<rparr>"

definition avaxMint :: tx_request where
  "avaxMint =
     \<lparr>walletId = ''w-1'',
      contractAddress = ''0x7865fAfC2db2093669d92c0F33AeEF291086BEFD'',
      abiFunctionSignature = ''receiveMessage(bytes,bytes)'',
      abiParameters = [Str ''0xmessage'', Str ''0xattestation''],
      fee = \<lparr>fee_type = ''level'', feeLevel = ''MEDIUM''\<rparr>\<rparr>"

definition avaxTransferTrace :: "event list" where
  "avaxTransferTrace =
     [Created
        \<lparr>walletId = ''w-3'',
         contractAddress = ''0xB97EF9Ef8734C71904D8002F8b6Bc66Dd9c48a6E'',
         abiFunctionSignature = ''approve(address,uint256)'',
         abiParameters =
           [Str ''0x9f3B8679c73C2Fef8b59B4f3444d4e156fb70AA5'', TimesMillionToString (Finite 50)],
         fee = \<lparr>fee_type = ''level'', feeLevel = ''MEDIUM''\<rparr>\<rparr>,
      PolledTx ''tx:approve(address,uint256)'' ''Approval''
        (Inr (Some ''0xhash:tx:approve(address,uint256)'')),
      Created
        \<lparr>walletId = ''w-3'',
         contractAddress = ''0x9f3B8679c73C2Fef8b59B4f3444d4e156fb70AA5'',
         abiFunctionSignature = ''depositForBurn(uint256,uint32,bytes32,address)'',
         abiParameters =
           [TimesMillionToString (Finite 50), Str ''0'',
            Str ''0x0000000000000000000000001111111111111111111111111111111111111111'',
            Str ''0xB97EF9Ef8734C71904D8002F8b6Bc66Dd9c48a6E''],
         fee = \<lparr>fee_type = ''level'', feeLevel = ''MEDIUM''\<rparr>\<rparr>,
      PolledTx ''tx:depositForBurn(uint256,uint32,bytes32,address)'' ''Burn''
        (Inr (Some ''0xhash:tx:depositForBurn(uint256,uint32,bytes32,address)'')),
      PolledAttestation (Some ''0xhash:tx:depositForBurn(uint256,uint32,bytes32,address)'')
        ''AVAX'' (Inr demoAttestation),
      Created avaxMint,
      PolledTx ''tx:receiveMessage(bytes,bytes)'' ''Mint''
        (Inr (Some ''0xhash:tx:receiveMessage(bytes,bytes)''))]"

text \<open>
  The two ways to recover that burn: naming Ethereum Sepolia, where the Avalanche wallet
  is the only destination offered, and naming Polygon Amoy with the destination of the
  transfer.
\<close>

definition avaxRecoverySepolia :: recovery_answers where
  "avaxRecoverySepolia =
     \<lparr>rec_burnTxHash = ''0xhash:tx:depositForBurn(uint256,uint32,bytes32,address)'',
      rec_source = ''1'', rec_destination = ''1''\<rparr>"

definition avaxRecoveryAmoy :: recovery_answers where
  "avaxRecoveryAmoy =
     \<lparr>rec_burnTxHash = ''0xhash:tx:depositForBurn(uint256,uint32,bytes32,address)'',
      rec_source = ''2'', rec_destination = ''2''\<rparr>"


section \<open>Properties\<close>

subsection \<open>The encoders\<close>

text \<open>
  C4. For each of the five supported chain identifiers \<^verbatim>\<open>getCCTPDomainId\<close> returns the
  integer of its table (ETH and ETH-SEPOLIA 0, AVAX 1, MATIC and MATIC-AMOY 7); for every
  other input it throws the unsupported-blockchain error.
\<close>

theorem getCCTPDomainId_table:
  "getCCTPDomainId ''ETH'' = Inr 0 \<and> getCCTPDomainId ''ETH-SEPOLIA'' = Inr 0
   \<and> getCCTPDomainId ''AVAX'' = Inr 1
   \<and> getCCTPDomainId ''MATIC'' = Inr 7 \<and> getCCTPDomainId ''MATIC-AMOY'' = Inr 7
   \<and> (chain \<notin> {''ETH'', ''MATIC'', ''AVAX'', ''ETH-SEPOLIA'', ''MATIC-AMOY''}
        \<longrightarrow> getCCTPDomainId chain = Inl (UnsupportedBlockchain chain))"
  by (simp add: getCCTPDomainId_def)

theorem getCCTPDomainId_table_witness:
  "''SOL-DEVNET'' \<notin> {''ETH'', ''MATIC'', ''AVAX'', ''ETH-SEPOLIA'', ''MATIC-AMOY''}
   \<and> getCCTPDomainId ''SOL-DEVNET'' = Inl (UnsupportedBlockchain ''SOL-DEVNET'')
   \<and> getCCTPDomainId ''AVAX'' = Inr 1"
  using getCCTPDomainId_table [of "''SOL-DEVNET''"] by simp

lemma replace_0x_prepend: "replace_0x (CHR ''0'' # CHR ''x'' # s) = s"
  by (simp add: replace_0x_def)

lemma padStart_long: "n \<le> length s \<Longrightarrow> padStart n c s = s"
  by (simp add: padStart_def)

lemma length_padStart: "length (padStart n c s) = max n (length s)"
  by (simp add: padStart_def)

lemma hex_padStart:
  "list_all isHexDigit s \<Longrightarrow> list_all isHexDigit (padStart n (CHR ''0'') s)"
proof -
  have "isHexDigit (CHR ''0'')" by (simp add: isHexDigit_def)
  then show "list_all isHexDigit s \<Longrightarrow> list_all isHexDigit (padStart n (CHR ''0'') s)"
    by (auto simp: padStart_def list_all_iff)
qed

text \<open>
  C5, as amended. For every input string \<^verbatim>\<open>addressToBytes32\<close> is idempotent. Its output
  is \<^verbatim>\<open>0x\<close> followed by as many characters as the longer of 64 and the input without
  its leading \<^verbatim>\<open>0x\<close>: exactly 64 when that input has at most 64 characters, and hex
  digits when that input consists of hex digits.
\<close>

theorem addressToBytes32_idempotent:
  "\<exists>out. addressToBytes32 a = Inr (''0x'' @ out)
     \<and> addressToBytes32 (''0x'' @ out) = Inr (''0x'' @ out)
     \<and> length out = max 64 (length (replace_0x a))
     \<and> (length (replace_0x a) \<le> 64 \<longrightarrow> length out = 64)
     \<and> (list_all isHexDigit (replace_0x a) \<longrightarrow> list_all isHexDigit out)"
  by (simp add: addressToBytes32_def replace_0x_prepend padStart_long length_padStart
        hex_padStart)

theorem addressToBytes32_idempotent_witness:
  "length (replace_0x ''0x1c7D4B196Cb0C7B01d743Fbc6116a902379C7238'') \<le> 64
   \<and> list_all isHexDigit (replace_0x ''0x1c7D4B196Cb0C7B01d743Fbc6116a902379C7238'')
   \<and> (\<exists>out. addressToBytes32 ''0x1c7D4B196Cb0C7B01d743Fbc6116a902379C7238'' = Inr (''0x'' @ out)
        \<and> addressToBytes32 (''0x'' @ out) = Inr (''0x'' @ out)
        \<and> length out = 64 \<and> list_all isHexDigit out)"
proof -
  have len: "length (replace_0x ''0x1c7D4B196Cb0C7B01d743Fbc6116a902379C7238'') \<le> 64"
    by (simp add: replace_0x_def)
  have hex: "list_all isHexDigit (replace_0x ''0x1c7D4B196Cb0C7B01d743Fbc6116a902379C7238'')"
    by (simp add: replace_0x_def isHexDigit_def)
  from addressToBytes32_idempotent [of "''0x1c7D4B196Cb0C7B01d743Fbc6116a902379C7238''"] len hex
  show ?thesis by blast
qed

text \<open>
  C5 as stated fails: an input of 65 hex digits gives 65 characters after the prefix,
  and characters that are not hex digits are kept.
\<close>

theorem addressToBytes32_64_hex_counterexample:
  "addressToBytes32 ''00000000000000000000000000000000000000000000000000000000000000000''
     = Inr ''0x00000000000000000000000000000000000000000000000000000000000000000''
   \<and> length ''00000000000000000000000000000000000000000000000000000000000000000'' = 65
   \<and> addressToBytes32 ''0xUSDC'' =
       Inr ''0x000000000000000000000000000000000000000000000000000000000000USDC''
   \<and> \<not> isHexDigit (CHR ''U'')"
  by code_simp

text \<open>
  C6, as amended. \<^verbatim>\<open>addressToBytes32\<close> left-pads a 20-byte hex address (40 hex digits,
  with or without the \<^verbatim>\<open>0x\<close> prefix) with 24 zeros to 32 bytes, and it never fails: every
  input string is accepted and returned padded.
\<close>

theorem addressToBytes32_pads_never_fails:
  "(isHexAddress a \<longrightarrow>
      addressToBytes32 a = Inr (''0x'' @ replicate 24 (CHR ''0'') @ replace_0x a))
   \<and> (\<exists>out. addressToBytes32 a = Inr out)"
  by (simp add: addressToBytes32_def padStart_def isHexAddress_def)

theorem addressToBytes32_pads_never_fails_witness:
  "isHexAddress ''0x1c7D4B196Cb0C7B01d743Fbc6116a902379C7238''
   \<and> addressToBytes32 ''0x1c7D4B196Cb0C7B01d743Fbc6116a902379C7238'' =
       Inr ''0x0000000000000000000000001c7D4B196Cb0C7B01d743Fbc6116a902379C7238''
   \<and> isHexAddress ''1c7D4B196Cb0C7B01d743Fbc6116a902379C7238''
   \<and> addressToBytes32 ''1c7D4B196Cb0C7B01d743Fbc6116a902379C7238'' =
       Inr ''0x0000000000000000000000001c7D4B196Cb0C7B01d743Fbc6116a902379C7238''"
proof -
  have a: "isHexAddress ''0x1c7D4B196Cb0C7B01d743Fbc6116a902379C7238''"
    by (simp add: isHexAddress_def replace_0x_def isHexDigit_def)
  have b: "isHexAddress ''1c7D4B196Cb0C7B01d743Fbc6116a902379C7238''"
    by (simp add: isHexAddress_def replace_0x_def isHexDigit_def)
  from a b
    addressToBytes32_pads_never_fails [of "''0x1c7D4B196Cb0C7B01d743Fbc6116a902379C7238''"]
    addressToBytes32_pads_never_fails [of "''1c7D4B196Cb0C7B01d743Fbc6116a902379C7238''"]
  show ?thesis by (simp add: replace_0x_def numeral_eq_Suc)
qed

text \<open>
  C6 as stated fails: a string that is no hex address is not rejected.
\<close>

theorem addressToBytes32_invalid_counterexample:
  "\<not> isHexAddress ''not an address''
   \<and> addressToBytes32 ''not an address'' =
       Inr ''0x00000000000000000000000000000000000000000000000000not an address''"
  by code_simp

subsection \<open>The transaction poller\<close>

lemma tx_loop_step:
  "a < N \<Longrightarrow> \<not> confirmed (replies a) \<Longrightarrow>
   waitForTransactionCompletion_loop N replies step a =
   waitForTransactionCompletion_loop N replies step (a + 1)"
  by (subst waitForTransactionCompletion_loop.simps)
     (simp add: confirmed_def split: tx_reply.splits option.splits)

lemma tx_loop_hit:
  "a < N \<Longrightarrow> confirmed (replies a) \<Longrightarrow>
   waitForTransactionCompletion_loop N replies step a = (a + 1, Inr (hashOf (replies a)))"
  by (subst waitForTransactionCompletion_loop.simps)
     (simp add: confirmed_def hashOf_def split: tx_reply.splits option.splits)

lemma tx_loop_end:
  "\<not> a < N \<Longrightarrow>
   waitForTransactionCompletion_loop N replies step a = (a, Inl (TransactionTimeout step))"
  by (subst waitForTransactionCompletion_loop.simps) simp

lemma tx_loop_confirm:
  "a \<le> k \<Longrightarrow> k < N \<Longrightarrow> confirmed (replies k) \<Longrightarrow> (\<forall>j. a \<le> j \<and> j < k \<longrightarrow> \<not> confirmed (replies j))
   \<Longrightarrow> waitForTransactionCompletion_loop N replies step a = (k + 1, Inr (hashOf (replies k)))"
proof (induction "k - a" arbitrary: a)
  case 0
  then have "a = k" by simp
  with 0 show ?case by (simp add: tx_loop_hit)
next
  case (Suc d)
  then have lt: "a < N" and nc: "\<not> confirmed (replies a)" by auto
  have "waitForTransactionCompletion_loop N replies step (a + 1) = (k + 1, Inr (hashOf (replies k)))"
    using Suc.prems Suc.hyps(2) by (intro Suc.hyps(1)) auto
  with lt nc show ?case by (simp add: tx_loop_step)
qed

lemma tx_loop_timeout:
  "a \<le> N \<Longrightarrow> (\<forall>j. a \<le> j \<and> j < N \<longrightarrow> \<not> confirmed (replies j))
   \<Longrightarrow> waitForTransactionCompletion_loop N replies step a = (N, Inl (TransactionTimeout step))"
proof (induction "N - a" arbitrary: a)
  case 0
  then have "a = N" by simp
  then show ?case by (simp add: tx_loop_end)
next
  case (Suc d)
  then have lt: "a < N" and nc: "\<not> confirmed (replies a)" by auto
  have "waitForTransactionCompletion_loop N replies step (a + 1) = (N, Inl (TransactionTimeout step))"
    using Suc.prems Suc.hyps(2) by (intro Suc.hyps(1)) auto
  with lt nc show ?case by (simp add: tx_loop_step)
qed

lemma tx_loop_bound:
  "a \<le> N \<Longrightarrow> fst (waitForTransactionCompletion_loop N replies step a) \<le> N"
proof (induction "N - a" arbitrary: a)
  case 0
  then show ?case by (simp add: tx_loop_end)
next
  case (Suc d)
  then have lt: "a < N" by auto
  have IH: "fst (waitForTransactionCompletion_loop N replies step (a + 1)) \<le> N"
    using Suc.prems Suc.hyps(2) by (intro Suc.hyps(1)) auto
  show ?case
  proof (cases "confirmed (replies a)")
    case True
    with lt show ?thesis by (simp add: tx_loop_hit)
  next
    case False
    with lt IH show ?thesis by (simp add: tx_loop_step)
  qed
qed

lemma tx_loop_cong:
  "(\<forall>i. a \<le> i \<and> i < N \<longrightarrow> replies i = replies' i) \<Longrightarrow>
   waitForTransactionCompletion_loop N replies step a =
   waitForTransactionCompletion_loop N replies' step a"
proof (induction "N - a" arbitrary: a)
  case 0
  then show ?case by (simp add: tx_loop_end)
next
  case (Suc d)
  then have lt: "a < N" and eq: "replies a = replies' a" by auto
  have IH: "waitForTransactionCompletion_loop N replies step (a + 1) =
            waitForTransactionCompletion_loop N replies' step (a + 1)"
    using Suc.prems Suc.hyps(2) by (intro Suc.hyps(1)) auto
  show ?case
  proof (cases "confirmed (replies a)")
    case True
    with lt eq show ?thesis by (simp add: tx_loop_hit)
  next
    case False
    with lt eq IH show ?thesis by (simp add: tx_loop_step)
  qed
qed

lemma replay_nth: "i < length xs \<Longrightarrow> replay xs d i = xs ! i"
  by (simp add: replay_def)

text \<open>
  C2. For every sequence of replies, the poller with attempt budget \<open>N\<close> returns the
  transaction hash at the first status check that observes \<^verbatim>\<open>CONFIRMED\<close>, having issued
  that many checks; it issues at most \<open>N\<close> checks, and only the first \<open>N\<close> replies matter;
  and it throws the timeout error after
  \<open>N\<close> checks without \<^verbatim>\<open>CONFIRMED\<close>. \<^verbatim>\<open>waitForTransactionCompletion\<close> runs it with
  \<open>N = 40\<close>. With \<open>N = 3\<close>, the states PENDING, PENDING, CONFIRMED give success at the
  third check, and PENDING, PENDING, PENDING give the timeout.
\<close>

theorem waitForTransactionCompletion_first_confirmed:
  "(k < N \<and> confirmed (replies k) \<and> (\<forall>j<k. \<not> confirmed (replies j)) \<longrightarrow>
      waitForTransactionCompletion_loop N replies step 0 = (k + 1, Inr (hashOf (replies k))))
   \<and> ((\<forall>j<N. \<not> confirmed (replies j)) \<longrightarrow>
      waitForTransactionCompletion_loop N replies step 0 = (N, Inl (TransactionTimeout step)))
   \<and> fst (waitForTransactionCompletion_loop N replies step 0) \<le> N
   \<and> ((\<forall>i<N. replies i = replies' i) \<longrightarrow>
      waitForTransactionCompletion_loop N replies step 0 =
      waitForTransactionCompletion_loop N replies' step 0)
   \<and> waitForTransactionCompletion replies step = waitForTransactionCompletion_loop 40 replies step 0
   \<and> waitForTransactionCompletion_loop 3
        (replay [GetReturns (Some (Transaction ''PENDING'' None)),
                 GetReturns (Some (Transaction ''PENDING'' None)),
                 GetReturns (Some (Transaction ''CONFIRMED'' h))] later) step 0
      = (3, Inr h)
   \<and> waitForTransactionCompletion_loop 3
        (replay [GetReturns (Some (Transaction ''PENDING'' None)),
                 GetReturns (Some (Transaction ''PENDING'' None)),
                 GetReturns (Some (Transaction ''PENDING'' None))] later) step 0
      = (3, Inl (TransactionTimeout step))"
proof (intro conjI impI)
  assume "k < N \<and> confirmed (replies k) \<and> (\<forall>j<k. \<not> confirmed (replies j))"
  then show "waitForTransactionCompletion_loop N replies step 0 = (k + 1, Inr (hashOf (replies k)))"
    by (intro tx_loop_confirm) auto
next
  assume "\<forall>j<N. \<not> confirmed (replies j)"
  then show "waitForTransactionCompletion_loop N replies step 0 = (N, Inl (TransactionTimeout step))"
    by (intro tx_loop_timeout) auto
next
  show "fst (waitForTransactionCompletion_loop N replies step 0) \<le> N"
    by (rule tx_loop_bound) simp
next
  assume "\<forall>i<N. replies i = replies' i"
  then show "waitForTransactionCompletion_loop N replies step 0 =
      waitForTransactionCompletion_loop N replies' step 0"
    by (intro tx_loop_cong) auto
next
  show "waitForTransactionCompletion replies step = waitForTransactionCompletion_loop 40 replies step 0"
    by (simp add: waitForTransactionCompletion_def)
next
  let ?r = "replay [GetReturns (Some (Transaction ''PENDING'' None)),
                 GetReturns (Some (Transaction ''PENDING'' None)),
                 GetReturns (Some (Transaction ''CONFIRMED'' h))] later"
  have "waitForTransactionCompletion_loop 3 ?r step 0 = (2 + 1, Inr (hashOf (?r 2)))"
    by (rule tx_loop_confirm) (auto simp: replay_def confirmed_def less_Suc_eq numeral_2_eq_2)
  then show "waitForTransactionCompletion_loop 3 ?r step 0 = (3, Inr h)"
    by (simp add: replay_def hashOf_def)
next
  let ?r = "replay [GetReturns (Some (Transaction ''PENDING'' None)),
                 GetReturns (Some (Transaction ''PENDING'' None)),
                 GetReturns (Some (Transaction ''PENDING'' None))] later"
  show "waitForTransactionCompletion_loop 3 ?r step 0 = (3, Inl (TransactionTimeout step))"
    by (rule tx_loop_timeout) (auto simp: replay_def confirmed_def less_Suc_eq numeral_3_eq_3)
qed

theorem waitForTransactionCompletion_first_confirmed_witness:
  "confirmed (GetReturns (Some (Transaction ''CONFIRMED'' (Some ''0xabc''))))
   \<and> \<not> confirmed (GetReturns (Some (Transaction ''PENDING'' None)))
   \<and> waitForTransactionCompletion
        (\<lambda>i. if i = 2 then GetReturns (Some (Transaction ''CONFIRMED'' (Some ''0xabc'')))
             else GetReturns (Some (Transaction ''PENDING'' None))) ''Burn''
      = (3, Inr (Some ''0xabc''))
   \<and> waitForTransactionCompletion (\<lambda>i. GetReturns (Some (Transaction ''PENDING'' None))) ''Burn''
      = (40, Inl (TransactionTimeout ''Burn''))"
  using waitForTransactionCompletion_first_confirmed
          [where k = 2 and N = 40 and step = "''Burn''"
             and replies = "\<lambda>i. if i = 2
                then GetReturns (Some (Transaction ''CONFIRMED'' (Some ''0xabc'')))
                else GetReturns (Some (Transaction ''PENDING'' None))"
             and replies' = "\<lambda>i. if i = 2
                then GetReturns (Some (Transaction ''CONFIRMED'' (Some ''0xabc'')))
                else GetReturns (Some (Transaction ''PENDING'' None))"]
        waitForTransactionCompletion_first_confirmed
          [where k = 0 and N = 40 and step = "''Burn''"
             and replies = "\<lambda>i. GetReturns (Some (Transaction ''PENDING'' None))"
             and replies' = "\<lambda>i. GetReturns (Some (Transaction ''PENDING'' None))"]
  by (simp add: confirmed_def hashOf_def)

subsection \<open>The attestation poller\<close>

lemma attested_shape:
  "attested r \<Longrightarrow>
   \<exists>status txt m rest a. r = Response status txt (JsonData (Some (m # rest)))
      \<and> response_ok status \<and> msg_attestation m = Some a \<and> a \<noteq> []"
  by (auto simp: attested_def split: fetch_reply.splits json_body.splits option.splits list.splits)

lemma att_loop_step:
  "a < N \<Longrightarrow> \<not> attested (replies a) \<Longrightarrow>
   waitForAttestation_loop N replies a = waitForAttestation_loop N replies (a + 1)"
  by (subst waitForAttestation_loop.simps)
     (auto simp: attested_def split: fetch_reply.split json_body.split option.split list.split)

lemma att_loop_hit:
  assumes "a < N" and "attested (replies a)"
  shows "waitForAttestation_loop N replies a = (a + 1, Inr (pairOf (replies a)))"
proof -
  from attested_shape [OF assms(2)] obtain status stext m rest att where
    "replies a = Response status stext (JsonData (Some (m # rest)))"
    "response_ok status" "msg_attestation m = Some att" "att \<noteq> []"
    by blast
  with assms(1) show ?thesis
    by (subst waitForAttestation_loop.simps) (simp add: pairOf_def)
qed

lemma att_loop_end:
  "\<not> a < N \<Longrightarrow> waitForAttestation_loop N replies a = (a, Inl (AttestationTimeout N))"
  by (subst waitForAttestation_loop.simps) simp

lemma att_loop_first:
  "a \<le> k \<Longrightarrow> k < N \<Longrightarrow> attested (replies k) \<Longrightarrow> (\<forall>j. a \<le> j \<and> j < k \<longrightarrow> \<not> attested (replies j))
   \<Longrightarrow> waitForAttestation_loop N replies a = (k + 1, Inr (pairOf (replies k)))"
proof (induction "k - a" arbitrary: a)
  case 0
  then have "a = k" by simp
  with 0 show ?case by (simp add: att_loop_hit)
next
  case (Suc d)
  then have lt: "a < N" and nc: "\<not> attested (replies a)" by auto
  have "waitForAttestation_loop N replies (a + 1) = (k + 1, Inr (pairOf (replies k)))"
    using Suc.prems Suc.hyps(2) by (intro Suc.hyps(1)) auto
  with lt nc show ?case by (simp add: att_loop_step)
qed

lemma att_loop_timeout:
  "a \<le> N \<Longrightarrow> (\<forall>j. a \<le> j \<and> j < N \<longrightarrow> \<not> attested (replies j))
   \<Longrightarrow> waitForAttestation_loop N replies a = (N, Inl (AttestationTimeout N))"
proof (induction "N - a" arbitrary: a)
  case 0
  then have "a = N" by simp
  then show ?case by (simp add: att_loop_end)
next
  case (Suc d)
  then have lt: "a < N" and nc: "\<not> attested (replies a)" by auto
  have "waitForAttestation_loop N replies (a + 1) = (N, Inl (AttestationTimeout N))"
    using Suc.prems Suc.hyps(2) by (intro Suc.hyps(1)) auto
  with lt nc show ?case by (simp add: att_loop_step)
qed

lemma not_attested_retryable:
  "\<not> attested (Response 404 txt body)"
  "\<not> response_ok status \<Longrightarrow> \<not> attested (Response status txt body)"
  "\<not> attested (Response status txt (JsonData (Some [])))"
  by (auto simp: attested_def response_ok_def split: json_body.split option.split list.split)

text \<open>
  C3. On a supported source chain, for every sequence of HTTP replies: a 404 reply, any
  other reply without a success status, and a reply with an empty \<^verbatim>\<open>messages\<close> array
  each make the poller go on to the next attempt; the poller returns the message and
  attestation of the first reply that carries a non-empty \<^verbatim>\<open>messages[0].attestation\<close>;
  and it throws the attestation timeout after 40 attempts without one.
\<close>

theorem waitForAttestation_retries_until_attested:
  assumes chain: "getCCTPDomainId sourceBlockchain = Inr d"
      and replies: "replies = (\<lambda>i. fetchUrl i (attestationUrl d burnTxHash))"
  shows "(a < N \<and> (\<exists>status txt body. replies' a = Response status txt body \<and>
              (status = 404 \<or> \<not> response_ok status \<or> body = JsonData (Some []))) \<longrightarrow>
            waitForAttestation_loop N replies' a = waitForAttestation_loop N replies' (a + 1))
       \<and> (k < 40 \<and> attested (replies k) \<and> (\<forall>j<k. \<not> attested (replies j)) \<longrightarrow>
            waitForAttestation fetchUrl burnTxHash sourceBlockchain = (k + 1, Inr (pairOf (replies k))))
       \<and> ((\<forall>j<40. \<not> attested (replies j)) \<longrightarrow>
            waitForAttestation fetchUrl burnTxHash sourceBlockchain = (40, Inl (AttestationTimeout 40)))"
proof (intro conjI impI)
  assume "a < N \<and> (\<exists>status txt body. replies' a = Response status txt body \<and>
              (status = 404 \<or> \<not> response_ok status \<or> body = JsonData (Some [])))"
  then have "a < N" and "\<not> attested (replies' a)"
    using not_attested_retryable by auto
  then show "waitForAttestation_loop N replies' a = waitForAttestation_loop N replies' (a + 1)"
    by (rule att_loop_step)
next
  assume "k < 40 \<and> attested (replies k) \<and> (\<forall>j<k. \<not> attested (replies j))"
  then have "waitForAttestation_loop 40 replies 0 = (k + 1, Inr (pairOf (replies k)))"
    by (intro att_loop_first) auto
  then show "waitForAttestation fetchUrl burnTxHash sourceBlockchain = (k + 1, Inr (pairOf (replies k)))"
    using chain replies by (simp add: waitForAttestation_def)
next
  assume "\<forall>j<40. \<not> attested (replies j)"
  then have "waitForAttestation_loop 40 replies 0 = (40, Inl (AttestationTimeout 40))"
    by (intro att_loop_timeout) auto
  then show "waitForAttestation fetchUrl burnTxHash sourceBlockchain = (40, Inl (AttestationTimeout 40))"
    using chain replies by (simp add: waitForAttestation_def)
qed

lemma demoUrl: "attestationUrl 0 (Some ''0xabc'') = ''https://iris-api-sandbox.circle.com/v1/messages/0/0xabc''"
  by (simp add: attestationUrl_def apiHost_def templateString_def showNat.simps)

theorem waitForAttestation_retries_until_attested_witness:
  "getCCTPDomainId ''ETH-SEPOLIA'' = Inr 0
   \<and> waitForAttestation demoFetch (Some ''0xabc'') ''ETH-SEPOLIA''
       = (5, Inr \<lparr>message = Some ''0xmessage'', attestation = ''0xattestation''\<rparr>)
   \<and> waitForAttestation (\<lambda>t url. Response 404 ''Not Found'' (JsonThrows [])) (Some ''0xabc'') ''ETH-SEPOLIA''
       = (40, Inl (AttestationTimeout 40))
   \<and> waitForAttestation_loop 40 (\<lambda>t. Response 500 ''Internal Server Error'' (JsonThrows [])) 39
       = waitForAttestation_loop 40 (\<lambda>t. Response 500 ''Internal Server Error'' (JsonThrows [])) 40"
proof -
  have d: "getCCTPDomainId ''ETH-SEPOLIA'' = Inr 0"
    by (simp add: getCCTPDomainId_def)
  let ?r = "\<lambda>i. demoFetch i (attestationUrl 0 (Some ''0xabc''))"
  have hit: "4 < (40::nat) \<and> attested (?r 4) \<and> (\<forall>j<4. \<not> attested (?r j))"
    by (auto simp: demoUrl demoFetch_def attested_def response_ok_def)
  let ?q = "\<lambda>i. (\<lambda>t url. Response 404 ''Not Found'' (JsonThrows [])) i (attestationUrl 0 (Some ''0xabc''))"
  have none: "\<forall>j::nat. j < 40 \<longrightarrow> \<not> attested (?q j)"
    by (simp add: attested_def)
  have step: "39 < (40::nat) \<and> (\<exists>status txt body.
      (\<lambda>t. Response 500 ''Internal Server Error'' (JsonThrows [])) (39::nat) = Response status txt body \<and>
      (status = 404 \<or> \<not> response_ok status \<or> body = JsonData (Some [])))"
    by (simp add: response_ok_def)
  from waitForAttestation_retries_until_attested [OF d refl, where k = 4 and fetchUrl = demoFetch and burnTxHash = "Some ''0xabc''"] hit
  have one: "waitForAttestation demoFetch (Some ''0xabc'') ''ETH-SEPOLIA''
       = (5, Inr \<lparr>message = Some ''0xmessage'', attestation = ''0xattestation''\<rparr>)"
    by (simp add: demoUrl demoFetch_def pairOf_def)
  from waitForAttestation_retries_until_attested [OF d refl, where fetchUrl = "\<lambda>t url. Response 404 ''Not Found'' (JsonThrows [])"
      and burnTxHash = "Some ''0xabc''"] none
  have two: "waitForAttestation (\<lambda>t url. Response 404 ''Not Found'' (JsonThrows [])) (Some ''0xabc'') ''ETH-SEPOLIA''
       = (40, Inl (AttestationTimeout 40))"
    by simp
  from waitForAttestation_retries_until_attested [OF d refl, where a = 39 and N = 40
      and replies' = "\<lambda>t. Response 500 ''Internal Server Error'' (JsonThrows [])"] step
  have three: "waitForAttestation_loop 40 (\<lambda>t. Response 500 ''Internal Server Error'' (JsonThrows [])) 39
       = waitForAttestation_loop 40 (\<lambda>t. Response 500 ''Internal Server Error'' (JsonThrows [])) 40"
    by simp
  from d one two three show ?thesis by simp
qed

subsection \<open>The sagas, step by step\<close>

text \<open>
  A run of a saga is taken apart at each \<open>bind_io\<close>: either the step failed and the run
  ended there, or it returned and the rest ran in the new state.
\<close>

lemma bind_ioE:
  assumes "bind_io m f s = (r, s'')"
  obtains (fail) err where "m s = (Inl err, s'')" "r = Inl err"
        | (ok) x s' where "m s = (Inr x, s')" "f x s' = (r, s'')"
  using assms by (auto simp: bind_io_def split: prod.splits sum.splits)

lemmas prim_defs = lift_io_def return_io_def networkOf_def createTx_def awaitTx_def
  awaitAttestation_def init_def

text \<open>
  Every call a transfer submits is its approval, its burn or its mint; and when the mint
  is submitted, the trace up to it is approval, confirmed approval, burn, confirmed burn
  with hash \<open>h\<close>, and the attestation obtained for \<open>h\<close> on the source chain.
\<close>

lemma transferSteps_run:
  "transferSteps e src dst amt init = (r, s) \<Longrightarrow> Created req \<in> set (trace s) \<Longrightarrow>
   \<exists>net. SUPPORTED_NETWORKS (blockchain src) = Some net \<and>
     (req = approveRequest src net amt
      \<or> (\<exists>d enc. getCCTPDomainId (blockchain dst) = Inr d
             \<and> addressToBytes32 (address dst) = Inr enc
             \<and> (req = burnRequest src net amt d enc
                \<or> (\<exists>aTx ah bTx h t att tr rest.
                      snd (attestationPoll e t h (blockchain src)) = Inr att
                      \<and> getMessageTransmitterAddress (blockchain dst) = Inr tr
                      \<and> req = mintRequest dst tr att
                      \<and> trace s =
                          Created (approveRequest src net amt)
                          # PolledTx aTx ''Approval'' (Inr ah)
                          # Created (burnRequest src net amt d enc)
                          # PolledTx bTx ''Burn'' (Inr h)
                          # PolledAttestation h (blockchain src) (Inr att)
                          # Created req # rest))))"
  apply (unfold transferSteps_def)
  apply (elim bind_ioE;
         clarsimp simp: prim_defs approveRequest_def burnRequest_def mintRequest_def TokenMessenger_def
           split: option.split_asm;
         (elim disjE; simp)?)
  done

lemma recoverSteps_run:
  "recoverSteps e h chain dst init = (r, s) \<Longrightarrow> Created req \<in> set (trace s) \<Longrightarrow>
   \<exists>att tr rest.
      snd (attestationPoll e 0 (Some h) chain) = Inr att
      \<and> getMessageTransmitterAddress (blockchain dst) = Inr tr
      \<and> req = mintRequest dst tr att
      \<and> trace s = PolledAttestation (Some h) chain (Inr att) # Created req # rest
      \<and> created (trace s) = [req]"
  apply (unfold recoverSteps_def)
  apply (elim bind_ioE;
         clarsimp simp: prim_defs mintRequest_def created_def split: option.split_asm)
  done

lemma perform_steps:
  "performCrossChainTransfer e ans = (out, s) \<Longrightarrow> selectTransfer e ans = Inr intent \<Longrightarrow>
   \<exists>r. transferSteps e (intent_source intent) (intent_destination intent) (intent_amount intent) init
         = (r, s)"
  by (auto simp: performCrossChainTransfer_def split: prod.splits sum.splits)

lemma perform_selected:
  "performCrossChainTransfer e ans = (out, s) \<Longrightarrow> trace s \<noteq> [] \<Longrightarrow>
   \<exists>intent. selectTransfer e ans = Inr intent"
  by (cases "selectTransfer e ans") (auto simp: performCrossChainTransfer_def init_def)

lemma recover_steps:
  "recoverFromBurn e ans = (out, s) \<Longrightarrow> selectRecovery e ans = Inr intent \<Longrightarrow>
   \<exists>r. recoverSteps e (rec_hash intent) (rec_sourceBlockchain intent) (rec_wallet intent) init = (r, s)"
  by (auto simp: recoverFromBurn_def split: prod.splits sum.splits)

lemma recover_selected:
  "recoverFromBurn e ans = (out, s) \<Longrightarrow> trace s \<noteq> [] \<Longrightarrow>
   \<exists>intent. selectRecovery e ans = Inr intent"
  by (cases "selectRecovery e ans") (auto simp: recoverFromBurn_def init_def)

lemma selectRecovery_hash:
  "selectRecovery e ans = Inr intent \<Longrightarrow>
   rec_hash intent = askQuestion (rec_burnTxHash ans)
   \<and> rec_sourceBlockchain intent =
       (if askQuestion (rec_source ans) = ''1'' then ''ETH-SEPOLIA'' else ''MATIC-AMOY'')"
  by (auto simp: selectRecovery_def Let_def split: if_splits option.splits)

subsection \<open>A concrete run\<close>

lemma txPoll_first:
  "confirmed (getTransaction e t txId) \<Longrightarrow>
   txPoll e t txId step = (1, Inr (hashOf (getTransaction e t txId)))"
  using tx_loop_hit [of 0 40 "\<lambda>i. getTransaction e (t + i) txId" step]
  by (simp add: txPoll_def waitForTransactionCompletion_def)

lemma attestationPoll_first:
  "getCCTPDomainId chain = Inr d \<Longrightarrow> attested (fetch e t (attestationUrl d h)) \<Longrightarrow>
   attestationPoll e t h chain = (1, Inr (pairOf (fetch e t (attestationUrl d h))))"
  using att_loop_hit [of 0 40 "\<lambda>i. fetch e (t + i) (attestationUrl d h)"]
  by (simp add: attestationPoll_def waitForAttestation_def)

lemma demo_txPoll:
  "txPoll demoEnv t txId step = (1, Inr (Some (''0xhash:'' @ txId)))"
  by (simp add: txPoll_first confirmed_def hashOf_def demoEnv_def)

lemma demo_attestationPoll:
  "getCCTPDomainId chain = Inr d \<Longrightarrow>
   attestationPoll demoEnv t h chain = (1, Inr demoAttestation)"
  by (simp add: attestationPoll_first [where d = d] attested_def pairOf_def demoEnv_def
        demoAttestation_def response_ok_def)

lemma demo_createResult:
  "createResult demoEnv req what = Inr (''tx:'' @ abiFunctionSignature req)"
  by (simp add: createResult_def demoEnv_def)

lemma demo_fields:
  "blockchain demoSource = ''ETH-SEPOLIA''" "blockchain demoDestination = ''MATIC-AMOY''"
  "wallet_state demoSource = ''LIVE''" "wallet_state demoDestination = ''LIVE''"
  "wallet_id demoSource = ''w-1''" "wallet_id demoDestination = ''w-2''"
  by (simp_all add: demoSource_def demoDestination_def)

lemma demo_chains:
  "SUPPORTED_NETWORKS ''ETH-SEPOLIA'' = Some sepolia"
  "\<exists>n. SUPPORTED_NETWORKS ''MATIC-AMOY'' = Some n"
  "getCCTPDomainId ''ETH-SEPOLIA'' = Inr 0"
  "getCCTPDomainId ''MATIC-AMOY'' = Inr 7"
  "getMessageTransmitterAddress ''MATIC-AMOY'' = Inr ''0x7865fAfC2db2093669d92c0F33AeEF291086BEFD''"
  by (simp_all add: SUPPORTED_NETWORKS_def sepolia_def getCCTPDomainId_def
        getMessageTransmitterAddress_def)

lemma demo_address:
  "addressToBytes32 (address demoDestination) =
     Inr ''0x0000000000000000000000002222222222222222222222222222222222222222''"
  by (simp add: demoDestination_def) code_simp

lemma demo_transferSteps:
  "transferSteps demoEnv demoSource demoDestination (Finite 50) init =
     (Inr (Some ''0xhash:tx:depositForBurn(uint256,uint32,bytes32,address)'',
           Some ''0xhash:tx:receiveMessage(bytes,bytes)''),
      \<lparr>clock = 4, trace = demoTransferTrace\<rparr>)"
proof -
  obtain n where n: "SUPPORTED_NETWORKS ''MATIC-AMOY'' = Some n"
    using demo_chains(2) by blast
  show ?thesis
    by (simp add: transferSteps_def bind_io_def prim_defs demo_fields demo_chains(1,3,4,5) n
          demo_address demo_createResult demo_txPoll demo_attestationPoll [OF demo_chains(3)]
          TokenMessenger_def demoTransferTrace_def demoMint_def demoAttestation_def sepolia_def
          optParam_def showNat.simps)
qed


lemma demo_getAllWallets: "getAllWallets demoEnv = [demoSource, demoDestination]"
  by (simp add: getAllWallets_def demoEnv_def demoSource_def demoDestination_def)

lemma demo_trim:
  "trim ''1'' = ''1''" "trim '' 1 '' = ''1''" "trim ''50'' = ''50''" "trim ''Yes'' = ''Yes''"
  "trim ''0xabc'' = ''0xabc''" "trim ''2'' = ''2''"
  by (simp_all add: trim_def isWhiteSpace_def)

lemma demo_toLowerCase: "toLowerCase ''Yes'' = ''yes''"
  by (simp add: toLowerCase_def)

lemma demo_parse:
  "parseInt demoEnv ''1'' = Some 1" "parseFloat demoEnv ''50'' = Finite 50"
  by (simp_all add: demoEnv_def)

lemma demo_balance:
  "findUSDCBalance demoEnv (getWalletBalance demoEnv w) = Finite 100"
  by (simp add: findUSDCBalance_def getWalletBalance_def demoEnv_def)

lemma demo_selectTransfer:
  "selectTransfer demoEnv demoAnswers =
     Inr \<lparr>intent_source = demoSource, intent_destination = demoDestination,
          intent_amount = Finite 50\<rparr>"
proof -
  obtain n where n: "SUPPORTED_NETWORKS ''MATIC-AMOY'' = Some n"
    using demo_chains(2) by blast
  show ?thesis
    by (simp add: selectTransfer_def Let_def demo_getAllWallets demo_fields demo_chains(1) n
          demoAnswers_def askQuestion_def demo_trim demo_toLowerCase demo_parse demo_balance
          choiceIndex_def outOfRange_def isNaN_def js_lesseq_def js_greater_def)
qed

lemma demo_selectRecovery:
  "selectRecovery demoEnv demoRecovery =
     Inr \<lparr>rec_hash = ''0xabc'', rec_sourceBlockchain = ''ETH-SEPOLIA'',
          rec_wallet = demoDestination\<rparr>"
proof -
  obtain n where n: "SUPPORTED_NETWORKS ''MATIC-AMOY'' = Some n"
    using demo_chains(2) by blast
  show ?thesis
    by (simp add: selectRecovery_def Let_def demo_getAllWallets demo_fields demo_chains(1) n
          demoRecovery_def askQuestion_def demo_trim demo_parse choiceIndex_def outOfRange_def)
qed

lemma demo_recoverSteps:
  "recoverSteps demoEnv ''0xabc'' ''ETH-SEPOLIA'' demoDestination init =
     (Inr (Some ''0xhash:tx:receiveMessage(bytes,bytes)''),
      \<lparr>clock = 2, trace = demoRecoveryTrace\<rparr>)"
proof -
  obtain n where n: "SUPPORTED_NETWORKS ''MATIC-AMOY'' = Some n"
    using demo_chains(2) by blast
  show ?thesis
    by (simp add: recoverSteps_def bind_io_def prim_defs demo_fields demo_chains(5) n
          demo_createResult demo_txPoll demo_attestationPoll [OF demo_chains(3)]
          demoRecoveryTrace_def demoMint_def demoAttestation_def optParam_def)
qed

subsection \<open>Menu indices\<close>

lemma outOfRange_nth:
  "\<not> outOfRange (Some i) (length xs) \<Longrightarrow> xs ! nat i \<in> set xs"
  by (auto simp: outOfRange_def)

subsection \<open>The mint and its attestation\<close>

lemma isMint_simps:
  "\<not> isMint (approveRequest src net amt)" "\<not> isMint (burnRequest src net amt d enc)"
  "isMint (mintRequest dst tr att)"
  by (simp_all add: isMint_def approveRequest_def burnRequest_def mintRequest_def)

lemma attestationPoll_result:
  "snd (attestationPoll e t h chain) = Inr att \<Longrightarrow>
   \<exists>n. waitForAttestation (\<lambda>i. fetch e (t + i)) h chain = (n, Inr att)"
  by (cases "attestationPoll e t h chain") (simp add: attestationPoll_def)

lemma transferSteps_mint:
  assumes run: "transferSteps e src dst amt init = (r, s)"
      and req: "Created req \<in> set (trace s)" "isMint req"
  shows "\<exists>net d enc aTx ah bTx h t n att tr rest.
           SUPPORTED_NETWORKS (blockchain src) = Some net
           \<and> getCCTPDomainId (blockchain dst) = Inr d
           \<and> addressToBytes32 (address dst) = Inr enc
           \<and> waitForAttestation (\<lambda>i. fetch e (t + i)) h (blockchain src) = (n, Inr att)
           \<and> getMessageTransmitterAddress (blockchain dst) = Inr tr
           \<and> req = mintRequest dst tr att
           \<and> trace s =
               Created (approveRequest src net amt)
               # PolledTx aTx ''Approval'' (Inr ah)
               # Created (burnRequest src net amt d enc)
               # PolledTx bTx ''Burn'' (Inr h)
               # PolledAttestation h (blockchain src) (Inr att)
               # Created req # rest"
proof -
  from transferSteps_run [OF run req(1)] req(2) obtain net d enc aTx ah bTx h t att tr rest where
    *: "SUPPORTED_NETWORKS (blockchain src) = Some net"
       "getCCTPDomainId (blockchain dst) = Inr d"
       "addressToBytes32 (address dst) = Inr enc"
       "snd (attestationPoll e t h (blockchain src)) = Inr att"
       "getMessageTransmitterAddress (blockchain dst) = Inr tr"
       "req = mintRequest dst tr att"
       "trace s =
               Created (approveRequest src net amt)
               # PolledTx aTx ''Approval'' (Inr ah)
               # Created (burnRequest src net amt d enc)
               # PolledTx bTx ''Burn'' (Inr h)
               # PolledAttestation h (blockchain src) (Inr att)
               # Created req # rest"
    by (auto simp: isMint_simps)
  from attestationPoll_result [OF *(4)] obtain n where
    "waitForAttestation (\<lambda>i. fetch e (t + i)) h (blockchain src) = (n, Inr att)" ..
  with * show ?thesis by blast
qed

lemma recoverSteps_mint:
  assumes run: "recoverSteps e h chain dst init = (r, s)"
      and req: "Created req \<in> set (trace s)"
  shows "\<exists>n att tr rest.
           waitForAttestation (fetch e) (Some h) chain = (n, Inr att)
           \<and> getMessageTransmitterAddress (blockchain dst) = Inr tr
           \<and> req = mintRequest dst tr att
           \<and> trace s = PolledAttestation (Some h) chain (Inr att) # Created req # rest
           \<and> created (trace s) = [req]"
proof -
  from recoverSteps_run [OF run req] obtain att tr rest where
    *: "snd (attestationPoll e 0 (Some h) chain) = Inr att"
       "getMessageTransmitterAddress (blockchain dst) = Inr tr"
       "req = mintRequest dst tr att"
       "trace s = PolledAttestation (Some h) chain (Inr att) # Created req # rest"
       "created (trace s) = [req]"
    by blast
  from attestationPoll_result [OF *(1)] obtain n where
    "waitForAttestation (fetch e) (Some h) chain = (n, Inr att)" by auto
  with * show ?thesis by blast
qed

lemma demo_perform:
  "performCrossChainTransfer demoEnv demoAnswers =
     (TransferCompleted (Some ''0xhash:tx:depositForBurn(uint256,uint32,bytes32,address)'')
        (Some ''0xhash:tx:receiveMessage(bytes,bytes)''),
      \<lparr>clock = 4, trace = demoTransferTrace\<rparr>)"
  by (simp add: performCrossChainTransfer_def demo_selectTransfer demo_transferSteps)

lemma demo_recover:
  "recoverFromBurn demoEnv demoRecovery =
     (RecoveryCompleted (Some ''0xhash:tx:receiveMessage(bytes,bytes)''),
      \<lparr>clock = 2, trace = demoRecoveryTrace\<rparr>)"
  by (simp add: recoverFromBurn_def demo_selectRecovery demo_recoverSteps)

lemma demo_mint:
  "Created demoMint \<in> set demoTransferTrace" "Created demoMint \<in> set demoRecoveryTrace"
  "isMint demoMint"
  by (simp_all add: demoTransferTrace_def demoRecoveryTrace_def isMint_def demoMint_def)

text \<open>
  C1. In every run of \<^verbatim>\<open>performCrossChainTransfer\<close> and of \<^verbatim>\<open>recoverFromBurn\<close>, a mint
  (\<^verbatim>\<open>receiveMessage\<close>) is submitted only directly after \<^verbatim>\<open>waitForAttestation\<close> has returned
  an attestation for the burn hash of that run (the hash the burn poll returned, or the
  hash typed in recovery), and the parameters of the mint are the message and the
  attestation of that returned object.
\<close>

theorem mint_only_after_attestation:
  "(performCrossChainTransfer e ans = (out, s) \<and> Created req \<in> set (trace s) \<and> isMint req \<longrightarrow>
      (\<exists>approveReq aTx ah burnReq bTx h chain t n att rest.
          trace s = Created approveReq # PolledTx aTx ''Approval'' (Inr ah)
                    # Created burnReq # PolledTx bTx ''Burn'' (Inr h)
                    # PolledAttestation h chain (Inr att) # Created req # rest
          \<and> waitForAttestation (\<lambda>i. fetch e (t + i)) h chain = (n, Inr att)
          \<and> abiParameters req = [optParam (message att), Str (attestation att)]))
   \<and> (recoverFromBurn e' answers = (out', s') \<and> Created req' \<in> set (trace s') \<longrightarrow>
      (\<exists>chain n att rest.
          trace s' = PolledAttestation (Some (askQuestion (rec_burnTxHash answers))) chain (Inr att)
                     # Created req' # rest
          \<and> waitForAttestation (fetch e') (Some (askQuestion (rec_burnTxHash answers))) chain
              = (n, Inr att)
          \<and> isMint req'
          \<and> abiParameters req' = [optParam (message att), Str (attestation att)]))"
proof (intro conjI impI)
  assume a: "performCrossChainTransfer e ans = (out, s) \<and> Created req \<in> set (trace s) \<and> isMint req"
  then have "trace s \<noteq> []" by auto
  with a obtain intent where "selectTransfer e ans = Inr intent"
    using perform_selected by blast
  with a obtain r where
    "transferSteps e (intent_source intent) (intent_destination intent) (intent_amount intent) init
       = (r, s)"
    using perform_steps by blast
  from transferSteps_mint [OF this] a
  show "\<exists>approveReq aTx ah burnReq bTx h chain t n att rest.
          trace s = Created approveReq # PolledTx aTx ''Approval'' (Inr ah)
                    # Created burnReq # PolledTx bTx ''Burn'' (Inr h)
                    # PolledAttestation h chain (Inr att) # Created req # rest
          \<and> waitForAttestation (\<lambda>i. fetch e (t + i)) h chain = (n, Inr att)
          \<and> abiParameters req = [optParam (message att), Str (attestation att)]"
    by (fastforce simp: mintRequest_def)
next
  assume a: "recoverFromBurn e' answers = (out', s') \<and> Created req' \<in> set (trace s')"
  then have "trace s' \<noteq> []" by auto
  with a obtain intent where sel: "selectRecovery e' answers = Inr intent"
    using recover_selected by blast
  with a obtain r where
    "recoverSteps e' (rec_hash intent) (rec_sourceBlockchain intent) (rec_wallet intent) init = (r, s')"
    using recover_steps by blast
  from recoverSteps_mint [OF this] a selectRecovery_hash [OF sel]
  show "\<exists>chain n att rest.
          trace s' = PolledAttestation (Some (askQuestion (rec_burnTxHash answers))) chain (Inr att)
                     # Created req' # rest
          \<and> waitForAttestation (fetch e') (Some (askQuestion (rec_burnTxHash answers))) chain
              = (n, Inr att)
          \<and> isMint req'
          \<and> abiParameters req' = [optParam (message att), Str (attestation att)]"
    by (fastforce simp: mintRequest_def isMint_def)
qed

theorem mint_only_after_attestation_witness:
  "performCrossChainTransfer demoEnv demoAnswers =
     (TransferCompleted (Some ''0xhash:tx:depositForBurn(uint256,uint32,bytes32,address)'')
        (Some ''0xhash:tx:receiveMessage(bytes,bytes)''),
      \<lparr>clock = 4, trace = demoTransferTrace\<rparr>)
   \<and> Created demoMint \<in> set demoTransferTrace \<and> isMint demoMint
   \<and> (\<exists>t n. waitForAttestation (\<lambda>i. fetch demoEnv (t + i))
               (Some ''0xhash:tx:depositForBurn(uint256,uint32,bytes32,address)'') ''ETH-SEPOLIA''
             = (n, Inr demoAttestation))
   \<and> recoverFromBurn demoEnv demoRecovery =
       (RecoveryCompleted (Some ''0xhash:tx:receiveMessage(bytes,bytes)''),
        \<lparr>clock = 2, trace = demoRecoveryTrace\<rparr>)
   \<and> Created demoMint \<in> set demoRecoveryTrace
   \<and> (\<exists>n. waitForAttestation (fetch demoEnv) (Some ''0xabc'') ''ETH-SEPOLIA''
           = (n, Inr demoAttestation))"
proof -
  note inst = mint_only_after_attestation
    [where e = demoEnv and ans = demoAnswers and s = "\<lparr>clock = 4, trace = demoTransferTrace\<rparr>"
       and req = demoMint and e' = demoEnv and answers = demoRecovery
       and s' = "\<lparr>clock = 2, trace = demoRecoveryTrace\<rparr>" and req' = demoMint,
     unfolded demo_perform demo_recover]
  from inst demo_mint
  have "\<exists>t n. waitForAttestation (\<lambda>i. fetch demoEnv (t + i))
               (Some ''0xhash:tx:depositForBurn(uint256,uint32,bytes32,address)'') ''ETH-SEPOLIA''
             = (n, Inr demoAttestation)"
    by (auto simp: demoTransferTrace_def)
  moreover from inst demo_mint
  have "\<exists>n. waitForAttestation (fetch demoEnv) (Some ''0xabc'') ''ETH-SEPOLIA''
           = (n, Inr demoAttestation)"
    by (auto simp: demoRecoveryTrace_def demoRecovery_def askQuestion_def demo_trim)
  ultimately show ?thesis
    using demo_perform demo_recover demo_mint by simp
qed

subsection \<open>The amounts and parameters of a transfer\<close>

lemma selectTransfer_amount:
  "selectTransfer e ans = Inr intent \<Longrightarrow>
   intent_amount intent = parseFloat e (askQuestion (ans_amount ans))"
  unfolding selectTransfer_def Let_def
  by (auto split: if_splits option.splits)

lemma showNat_demo: "showNat 7 = ''7''" "showNat 50000000 = ''50000000''"
  by (simp_all add: showNat.simps)

lemma render_50: "renderParam (TimesMillionToString (Finite 50)) = Some ''50000000''"
  by (simp add: renderParam_def showNat_demo)

lemma render_Str: "renderParam (Str x) = Some x"
  by (simp add: renderParam_def)

text \<open>
  C8. In a run of \<^verbatim>\<open>performCrossChainTransfer\<close> whose amount parses to 50 and that reaches
  the mint: the approval and the burn each carry the amount parameter
  \<^verbatim>\<open>(50 * 1000000).toString()\<close>, which is the string 50000000; the burn also carries the
  decimal domain id \<^verbatim>\<open>getCCTPDomainId\<close> gives for the destination chain, the destination
  address encoded by \<^verbatim>\<open>addressToBytes32\<close> and the source USDC contract; and the mint
  carries the message and attestation that the attestation poller returned.
\<close>

theorem transfer_amount_in_base_units:
  "performCrossChainTransfer e ans = (out, s)
   \<and> parseFloat e (askQuestion (ans_amount ans)) = Finite 50
   \<and> Created mint \<in> set (trace s) \<and> isMint mint
   \<longrightarrow>
   (\<exists>intent net d enc approval aTx ah burn bTx h t n att rest.
       selectTransfer e ans = Inr intent
     \<and> SUPPORTED_NETWORKS (blockchain (intent_source intent)) = Some net
     \<and> getCCTPDomainId (blockchain (intent_destination intent)) = Inr d
     \<and> addressToBytes32 (address (intent_destination intent)) = Inr enc
     \<and> waitForAttestation (\<lambda>i. fetch e (t + i)) h (blockchain (intent_source intent))
         = (n, Inr att)
     \<and> trace s = Created approval # PolledTx aTx ''Approval'' (Inr ah)
                 # Created burn # PolledTx bTx ''Burn'' (Inr h)
                 # PolledAttestation h (blockchain (intent_source intent)) (Inr att)
                 # Created mint # rest
     \<and> abiFunctionSignature approval = ''approve(address,uint256)''
     \<and> abiParameters approval =
         [Str ''0x9f3B8679c73C2Fef8b59B4f3444d4e156fb70AA5'', TimesMillionToString (Finite 50)]
     \<and> abiFunctionSignature burn = ''depositForBurn(uint256,uint32,bytes32,address)''
     \<and> abiParameters burn =
         [TimesMillionToString (Finite 50), Str (showNat d), Str enc, Str (usdcContract net)]
     \<and> renderParam (TimesMillionToString (Finite 50)) = Some ''50000000''
     \<and> abiParameters mint = [optParam (message att), Str (attestation att)])"
proof
  assume a: "performCrossChainTransfer e ans = (out, s)
   \<and> parseFloat e (askQuestion (ans_amount ans)) = Finite 50
   \<and> Created mint \<in> set (trace s) \<and> isMint mint"
  then have m1: "Created mint \<in> set (trace s)" and m2: "isMint mint" by simp_all
  from a have "trace s \<noteq> []" by auto
  with a obtain intent where sel: "selectTransfer e ans = Inr intent"
    using perform_selected by blast
  with a selectTransfer_amount have amt: "intent_amount intent = Finite 50" by fastforce
  from a sel obtain r where
    "transferSteps e (intent_source intent) (intent_destination intent) (intent_amount intent) init
       = (r, s)"
    using perform_steps by blast
  from transferSteps_mint [OF this m1 m2]
  obtain net d enc aTx ah bTx h t n att tr rest where
    *: "SUPPORTED_NETWORKS (blockchain (intent_source intent)) = Some net"
       "getCCTPDomainId (blockchain (intent_destination intent)) = Inr d"
       "addressToBytes32 (address (intent_destination intent)) = Inr enc"
       "waitForAttestation (\<lambda>i. fetch e (t + i)) h (blockchain (intent_source intent)) = (n, Inr att)"
    and mint: "mint = mintRequest (intent_destination intent) tr att"
    and tr: "trace s =
               Created (approveRequest (intent_source intent) net (intent_amount intent))
               # PolledTx aTx ''Approval'' (Inr ah)
               # Created (burnRequest (intent_source intent) net (intent_amount intent) d enc)
               # PolledTx bTx ''Burn'' (Inr h)
               # PolledAttestation h (blockchain (intent_source intent)) (Inr att)
               # Created mint # rest"
    by blast
  let ?approval = "approveRequest (intent_source intent) net (intent_amount intent)"
  let ?burn = "burnRequest (intent_source intent) net (intent_amount intent) d enc"
  have fields:
    "abiFunctionSignature ?approval = ''approve(address,uint256)''"
    "abiParameters ?approval =
         [Str ''0x9f3B8679c73C2Fef8b59B4f3444d4e156fb70AA5'', TimesMillionToString (Finite 50)]"
    "abiFunctionSignature ?burn = ''depositForBurn(uint256,uint32,bytes32,address)''"
    "abiParameters ?burn =
         [TimesMillionToString (Finite 50), Str (showNat d), Str enc, Str (usdcContract net)]"
    "renderParam (TimesMillionToString (Finite 50)) = Some ''50000000''"
    "abiParameters mint = [optParam (message att), Str (attestation att)]"
    by (simp_all add: approveRequest_def burnRequest_def mintRequest_def mint amt render_50)
  from sel * tr fields
  show "\<exists>intent net d enc approval aTx ah burn bTx h t n att rest.
       selectTransfer e ans = Inr intent
     \<and> SUPPORTED_NETWORKS (blockchain (intent_source intent)) = Some net
     \<and> getCCTPDomainId (blockchain (intent_destination intent)) = Inr d
     \<and> addressToBytes32 (address (intent_destination intent)) = Inr enc
     \<and> waitForAttestation (\<lambda>i. fetch e (t + i)) h (blockchain (intent_source intent))
         = (n, Inr att)
     \<and> trace s = Created approval # PolledTx aTx ''Approval'' (Inr ah)
                 # Created burn # PolledTx bTx ''Burn'' (Inr h)
                 # PolledAttestation h (blockchain (intent_source intent)) (Inr att)
                 # Created mint # rest
     \<and> abiFunctionSignature approval = ''approve(address,uint256)''
     \<and> abiParameters approval =
         [Str ''0x9f3B8679c73C2Fef8b59B4f3444d4e156fb70AA5'', TimesMillionToString (Finite 50)]
     \<and> abiFunctionSignature burn = ''depositForBurn(uint256,uint32,bytes32,address)''
     \<and> abiParameters burn =
         [TimesMillionToString (Finite 50), Str (showNat d), Str enc, Str (usdcContract net)]
     \<and> renderParam (TimesMillionToString (Finite 50)) = Some ''50000000''
     \<and> abiParameters mint = [optParam (message att), Str (attestation att)]"
    apply (intro exI conjI)
    apply assumption+
    done
qed

theorem transfer_amount_in_base_units_witness:
  "performCrossChainTransfer demoEnv demoAnswers =
     (TransferCompleted (Some ''0xhash:tx:depositForBurn(uint256,uint32,bytes32,address)'')
        (Some ''0xhash:tx:receiveMessage(bytes,bytes)''),
      \<lparr>clock = 4, trace = demoTransferTrace\<rparr>)
   \<and> parseFloat demoEnv (askQuestion (ans_amount demoAnswers)) = Finite 50
   \<and> Created demoMint \<in> set demoTransferTrace \<and> isMint demoMint
   \<and> (\<exists>approval burn.
          abiParameters approval =
            [Str ''0x9f3B8679c73C2Fef8b59B4f3444d4e156fb70AA5'', TimesMillionToString (Finite 50)]
        \<and> hd (tl (tl demoTransferTrace)) = Created burn
        \<and> hd demoTransferTrace = Created approval
        \<and> hd (abiParameters burn) = TimesMillionToString (Finite 50))
   \<and> renderParam (TimesMillionToString (Finite 50)) = Some ''50000000''"
proof -
  have amt: "parseFloat demoEnv (askQuestion (ans_amount demoAnswers)) = Finite 50"
    by (simp add: demoAnswers_def askQuestion_def demo_trim demo_parse)
  note inst = transfer_amount_in_base_units
    [where e = demoEnv and ans = demoAnswers and s = "\<lparr>clock = 4, trace = demoTransferTrace\<rparr>"
       and mint = demoMint
       and out = "TransferCompleted (Some ''0xhash:tx:depositForBurn(uint256,uint32,bytes32,address)'')
          (Some ''0xhash:tx:receiveMessage(bytes,bytes)'')",
     unfolded demo_perform]
  from inst amt demo_mint obtain approval burn where
    "abiParameters approval =
       [Str ''0x9f3B8679c73C2Fef8b59B4f3444d4e156fb70AA5'', TimesMillionToString (Finite 50)]"
    "hd (abiParameters burn) = TimesMillionToString (Finite 50)"
    "renderParam (TimesMillionToString (Finite 50)) = Some ''50000000''"
    "hd demoTransferTrace = Created approval"
    "hd (tl (tl demoTransferTrace)) = Created burn"
    by (simp add: demoTransferTrace_def) force
  with amt demo_perform demo_mint show ?thesis by blast
qed

subsection \<open>The source menu of recovery\<close>

lemma recoverSteps_chain:
  "recoverSteps e h chain dst init = (r, s) \<Longrightarrow> PolledAttestation h' c r' \<in> set (trace s) \<Longrightarrow>
   h' = Some h \<and> c = chain"
  apply (unfold recoverSteps_def)
  apply (elim bind_ioE; clarsimp simp: prim_defs)
  done

lemma askQuestion_2: "askQuestion ''2'' = ''2''"
  by (simp add: askQuestion_def trim_def isWhiteSpace_def)

lemma selectRecovery_default:
  "askQuestion (rec_source answers) \<noteq> ''1'' \<Longrightarrow>
   selectRecovery e answers = selectRecovery e (answers\<lparr>rec_source := ''2''\<rparr>)"
  by (simp add: selectRecovery_def Let_def askQuestion_2)

text \<open>
  C10. In \<^verbatim>\<open>recoverFromBurn\<close>, when the answer to the source-blockchain menu is anything
  but \<^verbatim>\<open>1\<close>, the run is the run for the answer \<^verbatim>\<open>2\<close>: the source blockchain is MATIC-AMOY,
  the attestation is polled for MATIC-AMOY, and no answer is rejected at this prompt.
  The answer \<^verbatim>\<open>1\<close> selects ETH-SEPOLIA. The answer is what \<^verbatim>\<open>askQuestion\<close> resolves to, the
  typed line without surrounding white space.
\<close>

theorem recovery_source_menu_default:
  "(askQuestion (rec_source answers) \<noteq> ''1'' \<longrightarrow>
       recoverFromBurn e answers = recoverFromBurn e (answers\<lparr>rec_source := ''2''\<rparr>)
     \<and> (selectRecovery e answers = Inr intent \<longrightarrow> rec_sourceBlockchain intent = ''MATIC-AMOY'')
     \<and> (recoverFromBurn e answers = (out, s) \<and> PolledAttestation h chain r \<in> set (trace s) \<longrightarrow>
          chain = ''MATIC-AMOY''))
   \<and> (askQuestion (rec_source answers) = ''1'' \<and> selectRecovery e answers = Inr intent \<longrightarrow>
        rec_sourceBlockchain intent = ''ETH-SEPOLIA'')"
proof (intro conjI impI)
  assume "askQuestion (rec_source answers) \<noteq> ''1''"
  then show "recoverFromBurn e answers = recoverFromBurn e (answers\<lparr>rec_source := ''2''\<rparr>)"
    by (simp add: recoverFromBurn_def selectRecovery_default)
next
  assume "askQuestion (rec_source answers) \<noteq> ''1''" "selectRecovery e answers = Inr intent"
  then show "rec_sourceBlockchain intent = ''MATIC-AMOY''"
    using selectRecovery_hash by fastforce
next
  assume n: "askQuestion (rec_source answers) \<noteq> ''1''"
    and a: "recoverFromBurn e answers = (out, s) \<and> PolledAttestation h chain r \<in> set (trace s)"
  then have "trace s \<noteq> []" by auto
  with a obtain i where sel: "selectRecovery e answers = Inr i"
    using recover_selected by blast
  with a obtain r' where
    "recoverSteps e (rec_hash i) (rec_sourceBlockchain i) (rec_wallet i) init = (r', s)"
    using recover_steps by blast
  from recoverSteps_chain [OF this] a have "chain = rec_sourceBlockchain i" by blast
  with n selectRecovery_hash [OF sel] show "chain = ''MATIC-AMOY''" by simp
next
  assume "askQuestion (rec_source answers) = ''1'' \<and> selectRecovery e answers = Inr intent"
  then show "rec_sourceBlockchain intent = ''ETH-SEPOLIA''"
    using selectRecovery_hash by fastforce
qed

lemma demo_selectRecovery_empty:
  "selectRecovery demoEnv (demoRecovery\<lparr>rec_source := ''''\<rparr>) =
     Inr \<lparr>rec_hash = ''0xabc'', rec_sourceBlockchain = ''MATIC-AMOY'', rec_wallet = demoSource\<rparr>"
proof -
  obtain n where n: "SUPPORTED_NETWORKS ''MATIC-AMOY'' = Some n"
    using demo_chains(2) by blast
  show ?thesis
    by (simp add: selectRecovery_def Let_def demo_getAllWallets demo_fields demo_chains(1) n
          demoRecovery_def askQuestion_def demo_trim demo_parse choiceIndex_def outOfRange_def)
      (simp add: trim_def)
qed

lemma demo_recover_empty:
  "recoverFromBurn demoEnv (demoRecovery\<lparr>rec_source := ''''\<rparr>) =
     (RecoveryCompleted (Some ''0xhash:tx:receiveMessage(bytes,bytes)''),
      \<lparr>clock = 2,
       trace =
         [PolledAttestation (Some ''0xabc'') ''MATIC-AMOY'' (Inr demoAttestation),
          Created (mintRequest demoSource ''0x7865fAfC2db2093669d92c0F33AeEF291086BEFD''
                     demoAttestation),
          PolledTx ''tx:receiveMessage(bytes,bytes)'' ''Mint''
            (Inr (Some ''0xhash:tx:receiveMessage(bytes,bytes)''))]\<rparr>)"
proof -
  have t: "getMessageTransmitterAddress ''ETH-SEPOLIA'' =
      Inr ''0x7865fAfC2db2093669d92c0F33AeEF291086BEFD''"
    by (simp add: getMessageTransmitterAddress_def)
  show ?thesis
    by (simp add: recoverFromBurn_def demo_selectRecovery_empty recoverSteps_def bind_io_def
          prim_defs demo_fields demo_chains(1) t demo_createResult demo_txPoll
          demo_attestationPoll [OF demo_chains(4)] mintRequest_def)
qed

theorem recovery_source_menu_default_witness:
  "askQuestion (rec_source (demoRecovery\<lparr>rec_source := ''''\<rparr>)) \<noteq> ''1''
   \<and> selectRecovery demoEnv (demoRecovery\<lparr>rec_source := ''''\<rparr>) =
       Inr \<lparr>rec_hash = ''0xabc'', rec_sourceBlockchain = ''MATIC-AMOY'', rec_wallet = demoSource\<rparr>
   \<and> recoverFromBurn demoEnv (demoRecovery\<lparr>rec_source := ''''\<rparr>)
       = recoverFromBurn demoEnv (demoRecovery\<lparr>rec_source := ''2''\<rparr>)
   \<and> askQuestion (rec_source demoRecovery) = ''1''
   \<and> selectRecovery demoEnv demoRecovery =
       Inr \<lparr>rec_hash = ''0xabc'', rec_sourceBlockchain = ''ETH-SEPOLIA'',
            rec_wallet = demoDestination\<rparr>"
proof -
  have ne: "askQuestion (rec_source (demoRecovery\<lparr>rec_source := ''''\<rparr>)) \<noteq> ''1''"
    by (simp add: askQuestion_def trim_def)
  have one: "askQuestion (rec_source demoRecovery) = ''1''"
    by (simp add: askQuestion_def demoRecovery_def demo_trim)
  from recovery_source_menu_default
    [where e = demoEnv and answers = "demoRecovery\<lparr>rec_source := ''''\<rparr>"
       and intent = "\<lparr>rec_hash = ''0xabc'', rec_sourceBlockchain = ''MATIC-AMOY'',
                      rec_wallet = demoSource\<rparr>"
       and out = "RecoveryCompleted (Some ''0xhash:tx:receiveMessage(bytes,bytes)'')"
       and s = "\<lparr>clock = 2,
         trace =
         [PolledAttestation (Some ''0xabc'') ''MATIC-AMOY'' (Inr demoAttestation),
          Created (mintRequest demoSource ''0x7865fAfC2db2093669d92c0F33AeEF291086BEFD''
                     demoAttestation),
          PolledTx ''tx:receiveMessage(bytes,bytes)'' ''Mint''
            (Inr (Some ''0xhash:tx:receiveMessage(bytes,bytes)''))]\<rparr>"
       and h = "Some ''0xabc''" and chain = "''MATIC-AMOY''" and r = "Inr demoAttestation"]
    ne demo_selectRecovery_empty demo_recover_empty
  have "recoverFromBurn demoEnv (demoRecovery\<lparr>rec_source := ''''\<rparr>)
       = recoverFromBurn demoEnv (demoRecovery\<lparr>rec_source := ''2''\<rparr>)"
    by simp
  moreover
  from recovery_source_menu_default
    [where e = demoEnv and answers = demoRecovery
       and intent = "\<lparr>rec_hash = ''0xabc'', rec_sourceBlockchain = ''ETH-SEPOLIA'',
                      rec_wallet = demoDestination\<rparr>"]
    one demo_selectRecovery
  have "rec_sourceBlockchain \<lparr>rec_hash = ''0xabc'', rec_sourceBlockchain = ''ETH-SEPOLIA'',
                      rec_wallet = demoDestination\<rparr> = ''ETH-SEPOLIA''"
    by simp
  ultimately show ?thesis
    using ne one demo_selectRecovery_empty demo_selectRecovery by simp
qed

subsection \<open>Recovery against the full run\<close>

text \<open>
  The attestation is the fifth event of a full run, the only place where one is polled.
  Recovery, once its burn is attested and its destination is on a supported chain, polls
  and then submits the mint, and nothing else.
\<close>

lemma transferSteps_polled:
  "transferSteps e src dst amt init = (r, s) \<Longrightarrow> PolledAttestation h c p \<in> set (trace s) \<Longrightarrow>
   4 < length (trace s) \<and> trace s ! 4 = PolledAttestation h c p"
  apply (unfold transferSteps_def)
  apply (elim bind_ioE; clarsimp simp: prim_defs)
  done

lemma supported_transmitter:
  "SUPPORTED_NETWORKS b = Some n \<Longrightarrow> \<exists>tr. getMessageTransmitterAddress b = Inr tr"
  by (auto simp: SUPPORTED_NETWORKS_def getMessageTransmitterAddress_def split: if_splits)

lemma selectRecovery_wallet:
  assumes "selectRecovery e answers = Inr intent"
  shows "SUPPORTED_NETWORKS (blockchain (rec_wallet intent)) \<noteq> None"
proof -
  define ws where
    "ws = filter (\<lambda>w. blockchain w \<noteq> rec_sourceBlockchain intent
                      \<and> SUPPORTED_NETWORKS (blockchain w) \<noteq> None) (getAllWallets e)"
  from assms obtain j where
    "\<not> outOfRange (Some j) (length ws)" and "rec_wallet intent = ws ! nat j"
    unfolding selectRecovery_def Let_def ws_def
    by (auto split: if_splits option.splits)
  with outOfRange_nth [of j ws] have "rec_wallet intent \<in> set ws" by simp
  then show ?thesis by (simp add: ws_def)
qed

lemma recoverSteps_forward:
  assumes poll: "snd (attestationPoll e 0 (Some h) chain) = Inr att"
      and net: "SUPPORTED_NETWORKS (blockchain dst) = Some n"
      and tr: "getMessageTransmitterAddress (blockchain dst) = Inr tr"
  shows "\<exists>r clk rest.
           recoverSteps e h chain dst init =
             (r, \<lparr>clock = clk,
                  trace = PolledAttestation (Some h) chain (Inr att)
                          # Created (mintRequest dst tr att) # rest\<rparr>)
           \<and> created (PolledAttestation (Some h) chain (Inr att)
                       # Created (mintRequest dst tr att) # rest) = [mintRequest dst tr att]"
proof (cases "createResult e (mintRequest dst tr att) ''mint''")
  case (Inl err)
  with poll net tr show ?thesis
    by (simp add: recoverSteps_def bind_io_def prim_defs mintRequest_def created_def)
next
  case (Inr txId)
  with poll net tr show ?thesis
    by (cases "snd (txPoll e (fst (attestationPoll e 0 (Some h) chain)) txId ''Mint'')")
       (simp_all add: recoverSteps_def bind_io_def prim_defs mintRequest_def created_def)
qed

lemma attestationPoll_service:
  assumes d: "getCCTPDomainId chain = Inr d"
      and k: "k < 40" "attested (fetch e k (attestationUrl d h))"
             "\<forall>j<k. \<not> attested (fetch e j (attestationUrl d h))"
  shows "snd (attestationPoll e 0 h chain) = Inr (pairOf (fetch e k (attestationUrl d h)))"
proof -
  have "waitForAttestation_loop 40 (\<lambda>i. fetch e i (attestationUrl d h)) 0 =
          (k + 1, Inr (pairOf (fetch e k (attestationUrl d h))))"
    using k by (intro att_loop_first) auto
  with d show ?thesis
    by (simp add: attestationPoll_def waitForAttestation_def)
qed

text \<open>
  C7, as amended. Take a full run of \<^verbatim>\<open>performCrossChainTransfer\<close> that submitted a mint after
  polling the attestation of burn hash \<open>h\<close> on a chain of domain \<open>d\<close>. Let recovery be given
  that same burn hash, a source chain of the same domain \<open>d\<close>, and the destination wallet of
  the full run, and let the attestation service answer it with the same attestation within
  the forty attempts. Then \<^verbatim>\<open>recoverFromBurn\<close> does submit a transaction, exactly one, and it
  is the mint of the full run: on the destination wallet, to the message transmitter that
  \<^verbatim>\<open>getMessageTransmitterAddress\<close> gives for the destination chain, with the signature
  \<^verbatim>\<open>receiveMessage(bytes,bytes)\<close>, the message and the attestation as parameters and the
  fee level MEDIUM. The domain is then 0 or 7, those of the two chains of the recovery
  menu. Moreover no run of recovery, whatever its inputs, submits an approval or a burn:
  a request it creates is a \<^verbatim>\<open>receiveMessage\<close> call and the only request of the run.
\<close>

theorem recovery_submits_same_mint:
  "(selectTransfer e ans = Inr intent \<and> performCrossChainTransfer e ans = (out, s)
    \<and> Created mint \<in> set (trace s) \<and> isMint mint
    \<and> PolledAttestation h c (Inr att) \<in> set (trace s)
    \<and> getCCTPDomainId c = Inr d
    \<and> selectRecovery e' answers = Inr intent'
    \<and> rec_wallet intent' = intent_destination intent
    \<and> Some (rec_hash intent') = h
    \<and> getCCTPDomainId (rec_sourceBlockchain intent') = Inr d
    \<and> k < 40
    \<and> attested (fetch e' k (attestationUrl d h))
    \<and> (\<forall>j<k. \<not> attested (fetch e' j (attestationUrl d h)))
    \<and> pairOf (fetch e' k (attestationUrl d h)) = att
    \<longrightarrow>
    (\<exists>out' clk rest tr.
        recoverFromBurn e' answers =
          (out', \<lparr>clock = clk,
                  trace = PolledAttestation h (rec_sourceBlockchain intent') (Inr att)
                          # Created mint # rest\<rparr>)
      \<and> created (PolledAttestation h (rec_sourceBlockchain intent') (Inr att)
                  # Created mint # rest) = [mint]
      \<and> getMessageTransmitterAddress (blockchain (intent_destination intent)) = Inr tr
      \<and> walletId mint = wallet_id (intent_destination intent)
      \<and> contractAddress mint = tr
      \<and> abiFunctionSignature mint = ''receiveMessage(bytes,bytes)''
      \<and> abiParameters mint = [optParam (message att), Str (attestation att)]
      \<and> fee mint = \<lparr>fee_type = ''level'', feeLevel = ''MEDIUM''\<rparr>
      \<and> (d = 0 \<or> d = 7)))
   \<and> (recoverFromBurn e'' answers' = (out'', s'') \<and> Created req \<in> set (trace s'') \<longrightarrow>
        abiFunctionSignature req = ''receiveMessage(bytes,bytes)''
        \<and> created (trace s'') = [req])"
proof (rule conjI; rule impI)
  assume a: "selectTransfer e ans = Inr intent \<and> performCrossChainTransfer e ans = (out, s)
    \<and> Created mint \<in> set (trace s) \<and> isMint mint
    \<and> PolledAttestation h c (Inr att) \<in> set (trace s)
    \<and> getCCTPDomainId c = Inr d
    \<and> selectRecovery e' answers = Inr intent'
    \<and> rec_wallet intent' = intent_destination intent
    \<and> Some (rec_hash intent') = h
    \<and> getCCTPDomainId (rec_sourceBlockchain intent') = Inr d
    \<and> k < 40
    \<and> attested (fetch e' k (attestationUrl d h))
    \<and> (\<forall>j<k. \<not> attested (fetch e' j (attestationUrl d h)))
    \<and> pairOf (fetch e' k (attestationUrl d h)) = att"
  let ?dst = "intent_destination intent"
  let ?chain = "rec_sourceBlockchain intent'"
  from a have sel: "selectTransfer e ans = Inr intent"
    and perf: "performCrossChainTransfer e ans = (out, s)"
    and m1: "Created mint \<in> set (trace s)" and m2: "isMint mint"
    and pa: "PolledAttestation h c (Inr att) \<in> set (trace s)"
    and sel': "selectRecovery e' answers = Inr intent'"
    and dst: "rec_wallet intent' = ?dst"
    and h: "Some (rec_hash intent') = h"
    and d': "getCCTPDomainId ?chain = Inr d"
    and k: "k < 40" "attested (fetch e' k (attestationUrl d h))"
           "\<forall>j<k. \<not> attested (fetch e' j (attestationUrl d h))"
    and p: "pairOf (fetch e' k (attestationUrl d h)) = att"
    by simp_all
  from perf sel obtain r where run:
    "transferSteps e (intent_source intent) ?dst (intent_amount intent) init = (r, s)"
    using perform_steps by blast
  from transferSteps_mint [OF run m1 m2]
  obtain net d0 enc aTx ah bTx h0 att0 tr rest0 where
    tr: "getMessageTransmitterAddress (blockchain ?dst) = Inr tr" and
    mint: "mint = mintRequest ?dst tr att0" and
    shape: "trace s =
               Created (approveRequest (intent_source intent) net (intent_amount intent))
               # PolledTx aTx ''Approval'' (Inr ah)
               # Created (burnRequest (intent_source intent) net (intent_amount intent) d0 enc)
               # PolledTx bTx ''Burn'' (Inr h0)
               # PolledAttestation h0 (blockchain (intent_source intent)) (Inr att0)
               # Created mint # rest0"
    by blast
  from transferSteps_polled [OF run pa] shape have att: "att0 = att"
    by simp
  from attestationPoll_service [OF d' k] p
  have poll: "snd (attestationPoll e' 0 (Some (rec_hash intent')) ?chain) = Inr att"
    by (simp add: h)
  from selectRecovery_wallet [OF sel'] dst obtain n where
    n: "SUPPORTED_NETWORKS (blockchain (rec_wallet intent')) = Some n" by auto
  from recoverSteps_forward [OF poll n] tr dst mint att
  obtain r' clk rest where
    rec: "recoverSteps e' (rec_hash intent') ?chain (rec_wallet intent') init =
             (r', \<lparr>clock = clk,
                   trace = PolledAttestation h ?chain (Inr att) # Created mint # rest\<rparr>)" and
    cr: "created (PolledAttestation h ?chain (Inr att) # Created mint # rest) = [mint]"
    using h by fastforce
  from rec sel' obtain out' where
    res: "recoverFromBurn e' answers =
          (out', \<lparr>clock = clk,
                  trace = PolledAttestation h ?chain (Inr att) # Created mint # rest\<rparr>)"
    by (cases r') (simp_all add: recoverFromBurn_def)
  from selectRecovery_hash [OF sel'] d' have dom: "d = 0 \<or> d = 7"
    by (auto simp: getCCTPDomainId_def split: if_splits)
  have fields: "walletId mint = wallet_id ?dst" "contractAddress mint = tr"
    "abiFunctionSignature mint = ''receiveMessage(bytes,bytes)''"
    "abiParameters mint = [optParam (message att), Str (attestation att)]"
    "fee mint = \<lparr>fee_type = ''level'', feeLevel = ''MEDIUM''\<rparr>"
    by (simp_all add: mint att mintRequest_def)
  from res cr tr fields dom
  show "\<exists>out' clk rest tr.
        recoverFromBurn e' answers =
          (out', \<lparr>clock = clk,
                  trace = PolledAttestation h (rec_sourceBlockchain intent') (Inr att)
                          # Created mint # rest\<rparr>)
      \<and> created (PolledAttestation h (rec_sourceBlockchain intent') (Inr att)
                  # Created mint # rest) = [mint]
      \<and> getMessageTransmitterAddress (blockchain (intent_destination intent)) = Inr tr
      \<and> walletId mint = wallet_id (intent_destination intent)
      \<and> contractAddress mint = tr
      \<and> abiFunctionSignature mint = ''receiveMessage(bytes,bytes)''
      \<and> abiParameters mint = [optParam (message att), Str (attestation att)]
      \<and> fee mint = \<lparr>fee_type = ''level'', feeLevel = ''MEDIUM''\<rparr>
      \<and> (d = 0 \<or> d = 7)"
    apply (intro exI conjI)
    apply assumption+
    done
next
  assume a: "recoverFromBurn e'' answers' = (out'', s'') \<and> Created req \<in> set (trace s'')"
  then have m: "Created req \<in> set (trace s'')" by simp
  then have "trace s'' \<noteq> []" by auto
  with a obtain i where "selectRecovery e'' answers' = Inr i"
    using recover_selected by blast
  with a obtain r where
    "recoverSteps e'' (rec_hash i) (rec_sourceBlockchain i) (rec_wallet i) init = (r, s'')"
    using recover_steps by blast
  from recoverSteps_mint [OF this m]
  show "abiFunctionSignature req = ''receiveMessage(bytes,bytes)'' \<and> created (trace s'') = [req]"
    by (auto simp: mintRequest_def)
qed

text \<open>
  The account of the concrete run: the transfer from Ethereum Sepolia to Polygon Amoy,
  then the recovery of its burn hash with source Ethereum Sepolia and the same destination.
\<close>

lemma demo_trim_hash:
  "trim ''0xhash:tx:depositForBurn(uint256,uint32,bytes32,address)'' =
     ''0xhash:tx:depositForBurn(uint256,uint32,bytes32,address)''"
  by (simp add: trim_def isWhiteSpace_def)

lemma demo_selectRecovery_linked:
  "selectRecovery demoEnv demoLinkedRecovery =
     Inr \<lparr>rec_hash = ''0xhash:tx:depositForBurn(uint256,uint32,bytes32,address)'',
          rec_sourceBlockchain = ''ETH-SEPOLIA'', rec_wallet = demoDestination\<rparr>"
proof -
  obtain n where n: "SUPPORTED_NETWORKS ''MATIC-AMOY'' = Some n"
    using demo_chains(2) by blast
  show ?thesis
    by (simp add: selectRecovery_def Let_def demo_getAllWallets demo_fields demo_chains(1) n
          demoLinkedRecovery_def askQuestion_def demo_trim demo_trim_hash demo_parse
          choiceIndex_def outOfRange_def)
qed

lemma demo_attested:
  "attested (fetch demoEnv t url)" "pairOf (fetch demoEnv t url) = demoAttestation"
  by (simp_all add: demoEnv_def attested_def pairOf_def response_ok_def demoAttestation_def)

theorem recovery_submits_same_mint_witness:
  "performCrossChainTransfer demoEnv demoAnswers =
     (TransferCompleted (Some ''0xhash:tx:depositForBurn(uint256,uint32,bytes32,address)'')
        (Some ''0xhash:tx:receiveMessage(bytes,bytes)''),
      \<lparr>clock = 4, trace = demoTransferTrace\<rparr>)
   \<and> Created demoMint \<in> set demoTransferTrace
   \<and> PolledAttestation (Some ''0xhash:tx:depositForBurn(uint256,uint32,bytes32,address)'')
         ''ETH-SEPOLIA'' (Inr demoAttestation) \<in> set demoTransferTrace
   \<and> selectRecovery demoEnv demoLinkedRecovery =
       Inr \<lparr>rec_hash = ''0xhash:tx:depositForBurn(uint256,uint32,bytes32,address)'',
            rec_sourceBlockchain = ''ETH-SEPOLIA'', rec_wallet = demoDestination\<rparr>
   \<and> (\<exists>out' clk rest.
         recoverFromBurn demoEnv demoLinkedRecovery =
           (out', \<lparr>clock = clk,
                   trace = PolledAttestation
                             (Some ''0xhash:tx:depositForBurn(uint256,uint32,bytes32,address)'')
                             ''ETH-SEPOLIA'' (Inr demoAttestation)
                           # Created demoMint # rest\<rparr>))
   \<and> created (trace (snd (recoverFromBurn demoEnv demoLinkedRecovery))) = [demoMint]
   \<and> recoverFromBurn demoEnv demoRecovery =
       (RecoveryCompleted (Some ''0xhash:tx:receiveMessage(bytes,bytes)''),
        \<lparr>clock = 2, trace = demoRecoveryTrace\<rparr>)
   \<and> created demoRecoveryTrace = [demoMint]"
proof -
  have pa: "PolledAttestation (Some ''0xhash:tx:depositForBurn(uint256,uint32,bytes32,address)'')
         ''ETH-SEPOLIA'' (Inr demoAttestation) \<in> set demoTransferTrace"
    by (simp add: demoTransferTrace_def)
  have k: "(0::nat) < 40" by simp
  note inst = recovery_submits_same_mint
    [where e = demoEnv and ans = demoAnswers and s = "\<lparr>clock = 4, trace = demoTransferTrace\<rparr>"
       and out = "TransferCompleted (Some ''0xhash:tx:depositForBurn(uint256,uint32,bytes32,address)'')
          (Some ''0xhash:tx:receiveMessage(bytes,bytes)'')"
       and intent = "\<lparr>intent_source = demoSource, intent_destination = demoDestination,
          intent_amount = Finite 50\<rparr>"
       and mint = demoMint
       and h = "Some ''0xhash:tx:depositForBurn(uint256,uint32,bytes32,address)''"
       and c = "''ETH-SEPOLIA''" and att = demoAttestation and d = 0
       and e' = demoEnv and answers = demoLinkedRecovery
       and intent' = "\<lparr>rec_hash = ''0xhash:tx:depositForBurn(uint256,uint32,bytes32,address)'',
            rec_sourceBlockchain = ''ETH-SEPOLIA'', rec_wallet = demoDestination\<rparr>"
       and k = 0
       and e'' = demoEnv and answers' = demoRecovery
       and s'' = "\<lparr>clock = 2, trace = demoRecoveryTrace\<rparr>" and req = demoMint
       and out'' = "RecoveryCompleted (Some ''0xhash:tx:receiveMessage(bytes,bytes)'')"]
  from inst demo_selectTransfer demo_perform demo_mint pa demo_chains(3)
    demo_selectRecovery_linked demo_attested
  obtain out' clk rest where
    r: "recoverFromBurn demoEnv demoLinkedRecovery =
           (out', \<lparr>clock = clk,
                   trace = PolledAttestation
                             (Some ''0xhash:tx:depositForBurn(uint256,uint32,bytes32,address)'')
                             ''ETH-SEPOLIA'' (Inr demoAttestation)
                           # Created demoMint # rest\<rparr>)" and
    c: "created (PolledAttestation
                   (Some ''0xhash:tx:depositForBurn(uint256,uint32,bytes32,address)'')
                   ''ETH-SEPOLIA'' (Inr demoAttestation)
                 # Created demoMint # rest) = [demoMint]"
    by auto
  from r c have c': "created (trace (snd (recoverFromBurn demoEnv demoLinkedRecovery))) = [demoMint]"
    by simp
  from inst demo_recover demo_mint have c'': "created demoRecoveryTrace = [demoMint]"
    by simp
  from r have ex: "\<exists>out' clk rest.
         recoverFromBurn demoEnv demoLinkedRecovery =
           (out', \<lparr>clock = clk,
                   trace = PolledAttestation
                             (Some ''0xhash:tx:depositForBurn(uint256,uint32,bytes32,address)'')
                             ''ETH-SEPOLIA'' (Inr demoAttestation)
                           # Created demoMint # rest\<rparr>)"
    by blast
  from demo_perform demo_mint(1) pa demo_selectRecovery_linked ex c' demo_recover c''
  show ?thesis by simp
qed

text \<open>
  C7 as stated, for every source chain, fails for a burn on Avalanche. The full run from
  an Avalanche wallet to the Ethereum Sepolia wallet polls domain 1 and mints. The
  recovery menu offers Ethereum Sepolia and Polygon Amoy only (line 416), so recovery
  polls domain 0 or domain 7, where the attestation service knows nothing of that burn:
  either way it gives up after forty attempts and submits no mint.
\<close>

lemma avax_env:
  "parseInt avaxEnv = parseInt demoEnv" "parseFloat avaxEnv = parseFloat demoEnv"
  "getWalletTokenBalance avaxEnv = getWalletTokenBalance demoEnv"
  "createContractExecutionTransaction avaxEnv = createContractExecutionTransaction demoEnv"
  "getTransaction avaxEnv = getTransaction demoEnv"
  by (simp_all add: avaxEnv_def)

lemma avax_getAllWallets: "getAllWallets avaxEnv = [avaxSource, demoSource]"
  by (simp add: getAllWallets_def avaxEnv_def demoEnv_def avaxSource_def demoSource_def)

lemma avax_fields:
  "blockchain avaxSource = ''AVAX''" "wallet_state avaxSource = ''LIVE''"
  "wallet_id avaxSource = ''w-3''" "address demoSource = ''0x1111111111111111111111111111111111111111''"
  by (simp_all add: avaxSource_def demoSource_def)

lemma avax_chains:
  "SUPPORTED_NETWORKS ''AVAX'' = Some avalanche"
  "getCCTPDomainId ''AVAX'' = Inr 1"
  "getMessageTransmitterAddress ''ETH-SEPOLIA'' = Inr ''0x7865fAfC2db2093669d92c0F33AeEF291086BEFD''"
  by (simp_all add: SUPPORTED_NETWORKS_def avalanche_def getCCTPDomainId_def
        getMessageTransmitterAddress_def)

lemma avax_address:
  "addressToBytes32 ''0x1111111111111111111111111111111111111111'' =
     Inr ''0x0000000000000000000000001111111111111111111111111111111111111111''"
  by code_simp

lemma avax_txPoll:
  "txPoll avaxEnv t txId step = (1, Inr (Some (''0xhash:'' @ txId)))"
  using demo_txPoll [of t txId step] by (simp add: txPoll_def avax_env)

lemma avax_createResult:
  "createResult avaxEnv req what = Inr (''tx:'' @ abiFunctionSignature req)"
  using demo_createResult [of req what] by (simp add: createResult_def avax_env)

lemma avax_balance:
  "findUSDCBalance avaxEnv (getWalletBalance avaxEnv w) = Finite 100"
  by (simp add: findUSDCBalance_def getWalletBalance_def avaxEnv_def demoEnv_def)

lemma avax_urls:
  "attestationUrl (Suc 0) (Some ''0xhash:tx:depositForBurn(uint256,uint32,bytes32,address)'') =
     ''https://iris-api-sandbox.circle.com/v1/messages/1/0xhash:tx:depositForBurn(uint256,uint32,bytes32,address)''"
  "attestationUrl 0 (Some ''0xhash:tx:depositForBurn(uint256,uint32,bytes32,address)'') =
     ''https://iris-api-sandbox.circle.com/v1/messages/0/0xhash:tx:depositForBurn(uint256,uint32,bytes32,address)''"
  "attestationUrl 7 (Some ''0xhash:tx:depositForBurn(uint256,uint32,bytes32,address)'') =
     ''https://iris-api-sandbox.circle.com/v1/messages/7/0xhash:tx:depositForBurn(uint256,uint32,bytes32,address)''"
  by (simp_all add: attestationUrl_def apiHost_def templateString_def showNat.simps)

lemma avax_fetch:
  "fetch avaxEnv t (attestationUrl (Suc 0)
      (Some ''0xhash:tx:depositForBurn(uint256,uint32,bytes32,address)'')) =
     Response 200 ''OK''
       (JsonData (Some [CctpMessage (Some ''0xmessage'') (Some ''0xattestation'')]))"
  by (simp add: avax_urls avaxEnv_def)

lemma avax_poll_avax:
  "attestationPoll avaxEnv t (Some ''0xhash:tx:depositForBurn(uint256,uint32,bytes32,address)'')
     ''AVAX'' = (1, Inr demoAttestation)"
proof -
  have "attested (fetch avaxEnv t (attestationUrl 1
      (Some ''0xhash:tx:depositForBurn(uint256,uint32,bytes32,address)'')))"
    by (simp add: avax_fetch attested_def response_ok_def)
  from attestationPoll_first [OF avax_chains(2) this] show ?thesis
    by (simp add: avax_fetch pairOf_def demoAttestation_def)
qed

lemma avax_poll_other:
  "attestationPoll avaxEnv 0 (Some ''0xhash:tx:depositForBurn(uint256,uint32,bytes32,address)'')
     ''ETH-SEPOLIA'' = (40, Inl (AttestationTimeout 40))"
  "attestationPoll avaxEnv 0 (Some ''0xhash:tx:depositForBurn(uint256,uint32,bytes32,address)'')
     ''MATIC-AMOY'' = (40, Inl (AttestationTimeout 40))"
proof -
  have a: "waitForAttestation_loop 40
      (\<lambda>i. fetch avaxEnv i (attestationUrl 0
         (Some ''0xhash:tx:depositForBurn(uint256,uint32,bytes32,address)''))) 0
      = (40, Inl (AttestationTimeout 40))"
    by (rule att_loop_timeout) (simp_all add: avax_urls avaxEnv_def attested_def)
  have b: "waitForAttestation_loop 40
      (\<lambda>i. fetch avaxEnv i (attestationUrl 7
         (Some ''0xhash:tx:depositForBurn(uint256,uint32,bytes32,address)''))) 0
      = (40, Inl (AttestationTimeout 40))"
    by (rule att_loop_timeout) (simp_all add: avax_urls avaxEnv_def attested_def)
  from a show "attestationPoll avaxEnv 0
      (Some ''0xhash:tx:depositForBurn(uint256,uint32,bytes32,address)'') ''ETH-SEPOLIA''
      = (40, Inl (AttestationTimeout 40))"
    by (simp add: attestationPoll_def waitForAttestation_def demo_chains(3))
  from b show "attestationPoll avaxEnv 0
      (Some ''0xhash:tx:depositForBurn(uint256,uint32,bytes32,address)'') ''MATIC-AMOY''
      = (40, Inl (AttestationTimeout 40))"
    by (simp add: attestationPoll_def waitForAttestation_def demo_chains(4))
qed

lemma avax_selectTransfer:
  "selectTransfer avaxEnv demoAnswers =
     Inr \<lparr>intent_source = avaxSource, intent_destination = demoSource,
          intent_amount = Finite 50\<rparr>"
  by (simp add: selectTransfer_def Let_def avax_getAllWallets avax_fields demo_fields
        demo_chains(1) avax_chains(1) demoAnswers_def askQuestion_def demo_trim
        demo_toLowerCase avax_env demo_parse avax_balance
        choiceIndex_def outOfRange_def isNaN_def js_lesseq_def js_greater_def)

lemma avax_transferSteps:
  "transferSteps avaxEnv avaxSource demoSource (Finite 50) init =
     (Inr (Some ''0xhash:tx:depositForBurn(uint256,uint32,bytes32,address)'',
           Some ''0xhash:tx:receiveMessage(bytes,bytes)''),
      \<lparr>clock = 4, trace = avaxTransferTrace\<rparr>)"
  by (simp add: transferSteps_def bind_io_def prim_defs avax_fields demo_fields
        demo_chains(1,3) avax_chains avax_address avax_createResult avax_txPoll avax_poll_avax
        TokenMessenger_def avaxTransferTrace_def avaxMint_def demoAttestation_def avalanche_def
        optParam_def showNat.simps)

lemma avax_selectRecovery:
  "selectRecovery avaxEnv avaxRecoverySepolia =
     Inr \<lparr>rec_hash = ''0xhash:tx:depositForBurn(uint256,uint32,bytes32,address)'',
          rec_sourceBlockchain = ''ETH-SEPOLIA'', rec_wallet = avaxSource\<rparr>"
  "selectRecovery avaxEnv avaxRecoveryAmoy =
     Inr \<lparr>rec_hash = ''0xhash:tx:depositForBurn(uint256,uint32,bytes32,address)'',
          rec_sourceBlockchain = ''MATIC-AMOY'', rec_wallet = demoSource\<rparr>"
  by (simp_all add: selectRecovery_def Let_def avax_getAllWallets avax_fields demo_fields
        demo_chains(1) avax_chains(1) avaxRecoverySepolia_def avaxRecoveryAmoy_def
        askQuestion_def demo_trim demo_trim_hash avax_env demoEnv_def
        choiceIndex_def outOfRange_def)

lemma avax_perform:
  "performCrossChainTransfer avaxEnv demoAnswers =
     (TransferCompleted (Some ''0xhash:tx:depositForBurn(uint256,uint32,bytes32,address)'')
        (Some ''0xhash:tx:receiveMessage(bytes,bytes)''),
      \<lparr>clock = 4, trace = avaxTransferTrace\<rparr>)"
  by (simp add: performCrossChainTransfer_def avax_selectTransfer avax_transferSteps)

lemma avax_recover:
  "recoverFromBurn avaxEnv avaxRecoverySepolia =
       (RecoveryFailed (AttestationTimeout 40),
        \<lparr>clock = 40,
         trace = [PolledAttestation
                    (Some ''0xhash:tx:depositForBurn(uint256,uint32,bytes32,address)'')
                    ''ETH-SEPOLIA'' (Inl (AttestationTimeout 40))]\<rparr>)"
  "recoverFromBurn avaxEnv avaxRecoveryAmoy =
       (RecoveryFailed (AttestationTimeout 40),
        \<lparr>clock = 40,
         trace = [PolledAttestation
                    (Some ''0xhash:tx:depositForBurn(uint256,uint32,bytes32,address)'')
                    ''MATIC-AMOY'' (Inl (AttestationTimeout 40))]\<rparr>)"
  by (simp_all add: recoverFromBurn_def avax_selectRecovery recoverSteps_def bind_io_def
        prim_defs avax_poll_other)

theorem recovery_of_avalanche_burn_counterexample:
  "performCrossChainTransfer avaxEnv demoAnswers =
     (TransferCompleted (Some ''0xhash:tx:depositForBurn(uint256,uint32,bytes32,address)'')
        (Some ''0xhash:tx:receiveMessage(bytes,bytes)''),
      \<lparr>clock = 4, trace = avaxTransferTrace\<rparr>)
   \<and> created avaxTransferTrace ! 2 = avaxMint
   \<and> isMint avaxMint
   \<and> recoverFromBurn avaxEnv avaxRecoverySepolia =
       (RecoveryFailed (AttestationTimeout 40),
        \<lparr>clock = 40,
         trace = [PolledAttestation
                    (Some ''0xhash:tx:depositForBurn(uint256,uint32,bytes32,address)'')
                    ''ETH-SEPOLIA'' (Inl (AttestationTimeout 40))]\<rparr>)
   \<and> recoverFromBurn avaxEnv avaxRecoveryAmoy =
       (RecoveryFailed (AttestationTimeout 40),
        \<lparr>clock = 40,
         trace = [PolledAttestation
                    (Some ''0xhash:tx:depositForBurn(uint256,uint32,bytes32,address)'')
                    ''MATIC-AMOY'' (Inl (AttestationTimeout 40))]\<rparr>)"
  by (simp add: avax_perform avax_recover avaxTransferTrace_def created_def isMint_def
        avaxMint_def)

subsection \<open>The balance check of a transfer\<close>

text \<open>
  An account that differs from the concrete one only in the amount field of the balance
  entry, which is not a number.
\<close>

lemma nan_getAllWallets: "getAllWallets nanEnv = [demoSource, demoDestination]"
  by (simp add: getAllWallets_def nanEnv_def demoEnv_def demoSource_def demoDestination_def)

lemma nan_env:
  "parseInt nanEnv = parseInt demoEnv" "parseFloat nanEnv = parseFloat demoEnv"
  by (simp_all add: nanEnv_def)

lemma nan_balance:
  "findUSDCBalance nanEnv (getWalletBalance nanEnv w) = NaN"
  by (simp add: findUSDCBalance_def getWalletBalance_def nanEnv_def demoEnv_def)

lemma nan_txPoll:
  "txPoll nanEnv t txId step = (1, Inr (Some (''0xhash:'' @ txId)))"
  using demo_txPoll [of t txId step] by (simp add: txPoll_def nanEnv_def)

lemma nan_createResult:
  "createResult nanEnv req what = Inr (''tx:'' @ abiFunctionSignature req)"
  using demo_createResult [of req what] by (simp add: createResult_def nanEnv_def)

lemma nan_attestationPoll:
  "attestationPoll nanEnv t h ''ETH-SEPOLIA'' = (1, Inr demoAttestation)"
  using demo_attestationPoll [OF demo_chains(3), of t h]
  by (simp add: attestationPoll_def nanEnv_def)

lemma nan_selectTransfer:
  "selectTransfer nanEnv demoAnswers =
     Inr \<lparr>intent_source = demoSource, intent_destination = demoDestination,
          intent_amount = Finite 50\<rparr>"
proof -
  obtain n where n: "SUPPORTED_NETWORKS ''MATIC-AMOY'' = Some n"
    using demo_chains(2) by blast
  show ?thesis
    by (simp add: selectTransfer_def Let_def nan_getAllWallets demo_fields demo_chains(1) n
          demoAnswers_def askQuestion_def demo_trim demo_toLowerCase nan_env demo_parse
          nan_balance choiceIndex_def outOfRange_def isNaN_def js_lesseq_def js_greater_def)
qed

lemma nan_transferSteps:
  "transferSteps nanEnv demoSource demoDestination (Finite 50) init =
     (Inr (Some ''0xhash:tx:depositForBurn(uint256,uint32,bytes32,address)'',
           Some ''0xhash:tx:receiveMessage(bytes,bytes)''),
      \<lparr>clock = 4, trace = demoTransferTrace\<rparr>)"
proof -
  obtain n where n: "SUPPORTED_NETWORKS ''MATIC-AMOY'' = Some n"
    using demo_chains(2) by blast
  show ?thesis
    by (simp add: transferSteps_def bind_io_def prim_defs demo_fields demo_chains(1,3,4,5) n
          demo_address nan_createResult nan_txPoll nan_attestationPoll
          TokenMessenger_def demoTransferTrace_def demoMint_def demoAttestation_def sepolia_def
          optParam_def showNat.simps)
qed

text \<open>
  C9 requires the amount of every transfer to be a positive number not exceeding the USDC
  balance of the source wallet, and the operation to abort before any submission
  otherwise. With a balance entry whose amount is \<^verbatim>\<open>'n/a'\<close>, \<^verbatim>\<open>parseFloat\<close> gives NaN, so
  \<^verbatim>\<open>findUSDCBalance\<close> returns NaN; the tests \<^verbatim>\<open>sourceUSDCBalance <= 0\<close> (line 185) and
  \<^verbatim>\<open>transferAmount > sourceUSDCBalance\<close> (line 224) are both false on NaN, the selection
  accepts the amount 50, which is not at most the balance, and the run submits the
  approval of 50 USDC, the burn and the mint.
\<close>

theorem transfer_with_unparsable_balance:
  "getWalletBalance nanEnv (wallet_id demoSource) =
     [TokenBalance (Some (Token (Some ''USDC'') None)) ''n/a'']
   \<and> parseFloat nanEnv ''n/a'' = NaN
   \<and> findUSDCBalance nanEnv (getWalletBalance nanEnv (wallet_id demoSource)) = NaN
   \<and> selectTransfer nanEnv demoAnswers =
       Inr \<lparr>intent_source = demoSource, intent_destination = demoDestination,
            intent_amount = Finite 50\<rparr>
   \<and> \<not> js_lesseq (Finite 50) NaN
   \<and> performCrossChainTransfer nanEnv demoAnswers =
       (TransferCompleted (Some ''0xhash:tx:depositForBurn(uint256,uint32,bytes32,address)'')
          (Some ''0xhash:tx:receiveMessage(bytes,bytes)''),
        \<lparr>clock = 4, trace = demoTransferTrace\<rparr>)
   \<and> abiParameters (created demoTransferTrace ! 0) =
       [Str ''0x9f3B8679c73C2Fef8b59B4f3444d4e156fb70AA5'', TimesMillionToString (Finite 50)]"
  by (simp add: nan_balance nan_selectTransfer performCrossChainTransfer_def nan_transferSteps
        js_lesseq_def demoTransferTrace_def created_def)
     (simp add: getWalletBalance_def nanEnv_def demoEnv_def)

end
